theory Spec2Isabelle
  imports Main "HOL-Library.Word" "HOL-Library.Multiset" "HOL-Library.Sublist"
begin

chapter \<open>The weekly meal plan page: grocery aggregation, week grid, week window\<close>

text \<open>
  A shallow embedding of \<^verbatim>\<open>src/app/plan/page.tsx\<close>: the grocery helper
  \<^verbatim>\<open>dedupeIngredients\<close>, the flattening of recipe ingredients and the state updates of
  \<^verbatim>\<open>openGroceryList\<close>, the cell filter and the label of the week grid, and the date
  helpers \<^verbatim>\<open>startOfWeekMonday\<close>, \<^verbatim>\<open>addDays\<close>, \<^verbatim>\<open>addWeeks\<close>.

  What the JavaScript platform supplies and the repository does not define is kept apart:
  \<^item> \<^verbatim>\<open>String.prototype.trim\<close>, \<^verbatim>\<open>Map\<close>, \<^verbatim>\<open>Array.prototype.filter\<close> and the stable
    \<^verbatim>\<open>Array.prototype.sort\<close> are modelled as ECMAScript defines them;
  \<^item> \<^verbatim>\<open>String.prototype.toLowerCase\<close> (the Unicode case tables) and
    \<^verbatim>\<open>String.prototype.localeCompare\<close> (the collation of the host's locale) are parameters
    of the model, named \<open>toLowerCase\<close> and \<open>localeCompare\<close>; a theorem says which of
    their properties it needs;
  \<^item> the local time zone, of which ECMAScript asks the offset of local time from UTC
    at an instant and at a local time, is a parameter \<open>tz\<close>; the offset may change with
    the time (daylight saving time), and a theorem says which properties of the zone it
    needs.
\<close>

section \<open>Strings\<close>

text \<open>A JavaScript string is a sequence of UTF-16 code units.\<close>

type_synonym jsstring = "16 word list"

text \<open>String literals of the source, written with ASCII characters.\<close>

definition js :: "string \<Rightarrow> jsstring" where
  "js s = map (\<lambda>c. of_nat (of_char c)) s"

text \<open>
  The code units \<^verbatim>\<open>trim\<close> strips: ECMAScript's WhiteSpace (TAB, VT, FF, ZWNBSP and the
  Unicode space separators) and LineTerminator (LF, CR, LS, PS). All of them are single
  code units.
\<close>

definition isWhiteSpace :: "16 word \<Rightarrow> bool" where
  "isWhiteSpace c \<longleftrightarrow>
     c \<in> {0x0009, 0x000A, 0x000B, 0x000C, 0x000D, 0x0020, 0x00A0, 0x1680,
          0x2000, 0x2001, 0x2002, 0x2003, 0x2004, 0x2005, 0x2006, 0x2007,
          0x2008, 0x2009, 0x200A, 0x2028, 0x2029, 0x202F, 0x205F, 0x3000, 0xFEFF}"

text \<open>\<^verbatim>\<open>s.trim()\<close>: white space removed from both ends.\<close>

definition trim :: "jsstring \<Rightarrow> jsstring" where
  "trim s = rev (dropWhile isWhiteSpace (rev (dropWhile isWhiteSpace s)))"

section \<open>Map and sort of the platform\<close>

text \<open>
  A \<^verbatim>\<open>Map\<close> keeps its entries in insertion order: an association list. \<^verbatim>\<open>set\<close> on a
  key that is present replaces the value where it stands, on a new key appends the entry.
\<close>

type_synonym ('k, 'v) jsmap = "('k \<times> 'v) list"

definition mapHas :: "('k, 'v) jsmap \<Rightarrow> 'k \<Rightarrow> bool" where
  "mapHas m k \<longleftrightarrow> k \<in> fst ` set m"

fun mapSet :: "('k, 'v) jsmap \<Rightarrow> 'k \<Rightarrow> 'v \<Rightarrow> ('k, 'v) jsmap" where
  "mapSet [] k v = [(k, v)]"
| "mapSet ((k', v') # m) k v = (if k' = k then (k, v) # m else (k', v') # mapSet m k v)"

text \<open>\<^verbatim>\<open>Array.from(map.values())\<close>.\<close>

definition mapValues :: "('k, 'v) jsmap \<Rightarrow> 'v list" where
  "mapValues m = map snd m"

text \<open>
  \<^verbatim>\<open>array.sort(comparefn)\<close>. For a consistent comparator ECMAScript fixes the result: the
  stable sort (elements that compare equal keep their order). The model is the stable
  insertion sort; \<open>cmp a b \<le> 0\<close> reads "a does not sort after b".
\<close>

fun insertSorted :: "('a \<Rightarrow> 'a \<Rightarrow> int) \<Rightarrow> 'a \<Rightarrow> 'a list \<Rightarrow> 'a list" where
  "insertSorted cmp x [] = [x]"
| "insertSorted cmp x (y # ys) =
     (if cmp x y \<le> 0 then x # y # ys else y # insertSorted cmp x ys)"

definition arraySort :: "('a \<Rightarrow> 'a \<Rightarrow> int) \<Rightarrow> 'a list \<Rightarrow> 'a list" where
  "arraySort cmp xs = foldr (insertSorted cmp) xs []"

text \<open>
  What the theorems on the order of the output need of the comparator: it is a total
  preorder, as the comparison of collation keys is.
\<close>

definition consistentComparator :: "('a \<Rightarrow> 'a \<Rightarrow> int) \<Rightarrow> bool" where
  "consistentComparator cmp \<longleftrightarrow>
     (\<forall>a b. cmp a b \<le> 0 \<or> cmp b a \<le> 0) \<and>
     (\<forall>a b c. cmp a b \<le> 0 \<longrightarrow> cmp b c \<le> 0 \<longrightarrow> cmp a c \<le> 0)"

section \<open>Grocery helpers\<close>

text \<open>
  \<^verbatim>\<open>
  function dedupeIngredients(lines: string[]) {
      const map = new Map<string, string>();
      for (const l of lines) {
          const key = l.trim().toLowerCase();
          if (!key) continue;
          if (!map.has(key)) map.set(key, l.trim());
      }
      return Array.from(map.values()).sort((a, b) => a.localeCompare(b));
  }
  \<close>
  \<open>dedupeStep\<close> is one turn of the loop on the map built so far; the empty string is the
  only falsy string.
\<close>

definition dedupeStep ::
  "(jsstring \<Rightarrow> jsstring) \<Rightarrow> (jsstring, jsstring) jsmap \<Rightarrow> jsstring
     \<Rightarrow> (jsstring, jsstring) jsmap" where
  "dedupeStep toLowerCase m l =
     (let key = toLowerCase (trim l) in
      if key = [] then m
      else if \<not> mapHas m key then mapSet m key (trim l)
      else m)"

definition dedupeIngredients ::
  "(jsstring \<Rightarrow> jsstring) \<Rightarrow> (jsstring \<Rightarrow> jsstring \<Rightarrow> int) \<Rightarrow> jsstring list
     \<Rightarrow> jsstring list" where
  "dedupeIngredients toLowerCase localeCompare lines =
     arraySort localeCompare (mapValues (foldl (dedupeStep toLowerCase) [] lines))"

text \<open>
  \<^verbatim>\<open>type RecipeWithIngs = { id: string; title: string; ingredients: string[] | null }\<close>
  (the fields \<^verbatim>\<open>id\<close> and \<^verbatim>\<open>title\<close> carry the record's name: \<open>id\<close> is HOL's identity).
\<close>

record RecipeWithIngs =
  recipe_with_ings_id :: jsstring
  recipe_with_ings_title :: jsstring
  ingredients :: "jsstring list option"

text \<open>
  The flattening in \<^verbatim>\<open>openGroceryList\<close>; \<open>None\<close> is a \<^verbatim>\<open>null\<close> answer of the store:
  \<^verbatim>\<open>
  const allLines: string[] = [];
  (data as RecipeWithIngs[] | null)?.forEach((r) =>
      (r.ingredients ?? []).forEach((l) => allLines.push(l)));
  \<close>
\<close>

definition allLines :: "RecipeWithIngs list option \<Rightarrow> jsstring list" where
  "allLines data =
     (case data of
        None \<Rightarrow> []
      | Some rs \<Rightarrow> concat (map (\<lambda>r. case ingredients r of None \<Rightarrow> [] | Some ls \<Rightarrow> ls) rs))"

subsection \<open>The aggregation in the words of the specification\<close>

text \<open>
  Line \<open>i\<close> is the first occurrence of its key when the key (the trimmed, lower-cased
  text) is not empty and no earlier line has it. The representatives are the trimmed
  texts of the first occurrences, in the order of the lines.
\<close>

definition firstOccurrence :: "(jsstring \<Rightarrow> jsstring) \<Rightarrow> jsstring list \<Rightarrow> nat \<Rightarrow> bool" where
  "firstOccurrence toLowerCase lines i \<longleftrightarrow>
     toLowerCase (trim (lines ! i)) \<noteq> [] \<and>
     (\<forall>j<i. toLowerCase (trim (lines ! j)) \<noteq> toLowerCase (trim (lines ! i)))"

definition representatives :: "(jsstring \<Rightarrow> jsstring) \<Rightarrow> jsstring list \<Rightarrow> jsstring list" where
  "representatives toLowerCase lines =
     map (\<lambda>i. trim (lines ! i)) (filter (firstOccurrence toLowerCase lines) [0..<length lines])"

subsection \<open>A reference platform\<close>

text \<open>
  One instance of the two platform parameters, on which the theorems are evaluated:
  lower-casing of the Basic Latin letters, and the comparison of strings by code units.
\<close>

definition asciiToLowerCase :: "jsstring \<Rightarrow> jsstring" where
  "asciiToLowerCase s = map (\<lambda>c. if 0x41 \<le> c \<and> c \<le> 0x5A then c + 0x20 else c) s"

fun compareCodeUnits :: "jsstring \<Rightarrow> jsstring \<Rightarrow> int" where
  "compareCodeUnits [] [] = 0"
| "compareCodeUnits [] (y # ys) = - 1"
| "compareCodeUnits (x # xs) [] = 1"
| "compareCodeUnits (x # xs) (y # ys) =
     (if x < y then - 1 else if y < x then 1 else compareCodeUnits xs ys)"

text \<open>The two recipes of the specification's example.\<close>

definition recipeA :: RecipeWithIngs where
  "recipeA = \<lparr>recipe_with_ings_id = js ''A'', recipe_with_ings_title = js ''A'',
               ingredients = Some [js ''2 eggs'', js ''Milk'']\<rparr>"

definition recipeB :: RecipeWithIngs where
  "recipeB = \<lparr>recipe_with_ings_id = js ''B'', recipe_with_ings_title = js ''B'',
               ingredients = Some [js ''milk'', js ''2 Eggs'', js ''Salt'']\<rparr>"

section \<open>The week grid\<close>

text \<open>
  \<^verbatim>\<open>
  type PlanItem = { id: string; meal_plan_id: string; day: number; // 0..6 (Mon..Sun)
                    meal_type: MealType; recipe_id: string | null; notes: string | null };
  \<close>
  At run time \<^verbatim>\<open>meal_type\<close> is whatever string the store returns and \<^verbatim>\<open>day\<close> whatever
  integer. The field \<^verbatim>\<open>id\<close> carries the record's name; \<^verbatim>\<open>notes\<close> is a keyword of
  Isabelle, the field is \<open>item_notes\<close>.
\<close>

record PlanItem =
  plan_item_id :: jsstring
  meal_plan_id :: jsstring
  day :: int
  meal_type :: jsstring
  recipe_id :: "jsstring option"
  item_notes :: "jsstring option"

text \<open>\<^verbatim>\<open>const MEAL_TYPES = ["breakfast", "lunch", "dinner", "snack"] as const;\<close>\<close>

definition MEAL_TYPES :: "jsstring list" where
  "MEAL_TYPES = [js ''breakfast'', js ''lunch'', js ''dinner'', js ''snack'']"

text \<open>
  The cell of the table for one meal and one day index:
  \<^verbatim>\<open>items.filter((it) => it.day === dayIndex && it.meal_type === meal)\<close>
\<close>

definition cellItems :: "PlanItem list \<Rightarrow> nat \<Rightarrow> jsstring \<Rightarrow> PlanItem list" where
  "cellItems items dayIndex meal =
     filter (\<lambda>it. day it = int dayIndex \<and> meal_type it = meal) items"

text \<open>
  The table body: a row for each meal of \<^verbatim>\<open>MEAL_TYPES\<close>, in it a cell for each index of
  \<^verbatim>\<open>weekDays\<close>, which always has the seven days of the week:
  \<^verbatim>\<open>MEAL_TYPES.map((meal) => ... weekDays.map((_d, dayIndex) => ... cellItems ...))\<close>
\<close>

definition weekGrid :: "PlanItem list \<Rightarrow> PlanItem list list list" where
  "weekGrid items =
     map (\<lambda>meal. map (\<lambda>dayIndex. cellItems items dayIndex meal) [0..<7]) MEAL_TYPES"

text \<open>
  The label of an entry; \<open>recipeTitleMap\<close> is the page's \<^verbatim>\<open>Map<string, string>\<close>, whose
  \<^verbatim>\<open>get\<close> is \<^verbatim>\<open>undefined\<close> on a missing key. A \<^verbatim>\<open>recipe_id\<close> is truthy when it is neither
  \<^verbatim>\<open>null\<close> nor the empty string.
  \<^verbatim>\<open>
  it.recipe_id ? recipeTitleMap.get(it.recipe_id) ?? "Recipe" : it.notes ?? "Item"
  \<close>
\<close>

definition itemLabel :: "(jsstring \<rightharpoonup> jsstring) \<Rightarrow> PlanItem \<Rightarrow> jsstring" where
  "itemLabel recipeTitleMap it =
     (if recipe_id it \<noteq> None \<and> recipe_id it \<noteq> Some []
      then (case recipeTitleMap (the (recipe_id it)) of Some title \<Rightarrow> title | None \<Rightarrow> js ''Recipe'')
      else (case item_notes it of Some n \<Rightarrow> n | None \<Rightarrow> js ''Item''))"

subsection \<open>The grid in the words of the specification\<close>

text \<open>
  An entry is well formed when its day is one of 0..6 and its meal type one of the four.
  The 28 cells are named by their meal and day index, in the order of the table.
\<close>

definition wellFormedEntry :: "PlanItem \<Rightarrow> bool" where
  "wellFormedEntry it \<longleftrightarrow> 0 \<le> day it \<and> day it \<le> 6 \<and> meal_type it \<in> set MEAL_TYPES"

definition gridCells :: "(jsstring \<times> nat) list" where
  "gridCells = concat (map (\<lambda>meal. map (\<lambda>dayIndex. (meal, dayIndex)) [0..<7]) MEAL_TYPES)"

text \<open>
  Entries for the examples: the two of the specification (a note and a recipe on Monday's
  dinner), one whose day is 7, and one whose meal type is not of the four.
\<close>

definition leftoversEntry :: PlanItem where
  "leftoversEntry = \<lparr>plan_item_id = js ''i1'', meal_plan_id = js ''p1'', day = 0,
     meal_type = js ''dinner'', recipe_id = None, item_notes = Some (js ''leftovers'')\<rparr>"

definition recipeEntry :: PlanItem where
  "recipeEntry = \<lparr>plan_item_id = js ''i2'', meal_plan_id = js ''p1'', day = 0,
     meal_type = js ''dinner'', recipe_id = Some (js ''R1''), item_notes = None\<rparr>"

definition lateEntry :: PlanItem where
  "lateEntry = \<lparr>plan_item_id = js ''i3'', meal_plan_id = js ''p1'', day = 7,
     meal_type = js ''dinner'', recipe_id = None, item_notes = None\<rparr>"

definition brunchEntry :: PlanItem where
  "brunchEntry = \<lparr>plan_item_id = js ''i4'', meal_plan_id = js ''p1'', day = 2,
     meal_type = js ''brunch'', recipe_id = None, item_notes = None\<rparr>"


section \<open>Dates\<close>

text \<open>
  A \<^verbatim>\<open>Date\<close> holds a time value: the milliseconds since the epoch in UTC, of absolute
  value at most 8.64e15, or \<^verbatim>\<open>NaN\<close> (an Invalid Date). \<open>TimeClip\<close>, \<open>LocalTZA\<close>, \<open>LocalTime\<close>,
  \<open>UTC\<close>, \<open>Day\<close>, \<open>TimeWithinDay\<close>, \<open>WeekDay\<close> (0 is Sunday; day 0 of the epoch is a
  Thursday) and \<open>MakeDate\<close> are ECMAScript's abstract operations, on integers.
\<close>

datatype Date = InvalidDate | TimeValue int

definition msPerDay :: int where
  "msPerDay = 86400000"

definition maxTimeValue :: int where
  "maxTimeValue = 8640000000000000"

definition TimeClip :: "int \<Rightarrow> Date" where
  "TimeClip t = (if \<bar>t\<bar> > maxTimeValue then InvalidDate else TimeValue t)"

text \<open>
  The local time zone is the host's. ECMAScript asks of it \<^verbatim>\<open>LocalTZA(t, isUTC)\<close>, the
  offset of local time from UTC in milliseconds: the offset in force at the instant \<open>t\<close>
  when \<^verbatim>\<open>isUTC\<close> is true, and the offset of the local time \<open>t\<close> when it is false, where a
  local time that a clock change repeats or skips is read with the offset before the
  change. A zone is a parameter of the model, named \<open>tz\<close>: the two readings of its offset,
  each a function of the time, so that the offset may change (daylight saving time).
  \<^verbatim>\<open>LocalTime(t) = t + LocalTZA(t, true)\<close> and \<^verbatim>\<open>UTC(t) = t - LocalTZA(t, false)\<close>.
\<close>

record TimeZone =
  offsetAt :: "int \<Rightarrow> int"
  offsetOfLocal :: "int \<Rightarrow> int"

definition LocalTZA :: "TimeZone \<Rightarrow> int \<Rightarrow> bool \<Rightarrow> int" where
  "LocalTZA tz t isUTC = (if isUTC then offsetAt tz t else offsetOfLocal tz t)"

definition LocalTime :: "TimeZone \<Rightarrow> int \<Rightarrow> int" where
  "LocalTime tz t = t + LocalTZA tz t True"

definition UTC :: "TimeZone \<Rightarrow> int \<Rightarrow> int" where
  "UTC tz t = t - LocalTZA tz t False"

definition Day :: "int \<Rightarrow> int" where
  "Day t = t div msPerDay"

definition TimeWithinDay :: "int \<Rightarrow> int" where
  "TimeWithinDay t = t mod msPerDay"

definition WeekDay :: "int \<Rightarrow> int" where
  "WeekDay t = (Day t + 4) mod 7"

definition MakeDate :: "int \<Rightarrow> int \<Rightarrow> int" where
  "MakeDate dayNumber time = dayNumber * msPerDay + time"

text \<open>The dates a \<^verbatim>\<open>Date\<close> object can hold, Invalid Date apart.\<close>

definition validDate :: "Date \<Rightarrow> bool" where
  "validDate d = (case d of InvalidDate \<Rightarrow> False | TimeValue t \<Rightarrow> \<bar>t\<bar> \<le> maxTimeValue)"

text \<open>\<^verbatim>\<open>new Date(d)\<close>: a copy of the time value.\<close>

definition newDate :: "Date \<Rightarrow> Date" where
  "newDate d = (case d of InvalidDate \<Rightarrow> InvalidDate | TimeValue t \<Rightarrow> TimeClip t)"

text \<open>\<^verbatim>\<open>x.getDay()\<close>: the day of the week in local time; \<open>None\<close> is \<^verbatim>\<open>NaN\<close>.\<close>

definition getDay :: "TimeZone \<Rightarrow> Date \<Rightarrow> int option" where
  "getDay tz x =
     (case x of InvalidDate \<Rightarrow> None | TimeValue t \<Rightarrow> Some (WeekDay (LocalTime tz t)))"

text \<open>
  \<^verbatim>\<open>x.setHours(0, 0, 0, 0)\<close>: the local time is set to the midnight of its day, and the
  new time value is the instant the zone gives for that local time.
\<close>

definition setHoursZero :: "TimeZone \<Rightarrow> Date \<Rightarrow> Date" where
  "setHoursZero tz x =
     (case x of
        InvalidDate \<Rightarrow> InvalidDate
      | TimeValue t \<Rightarrow> TimeClip (UTC tz (MakeDate (Day (LocalTime tz t)) 0)))"

text \<open>
  \<^verbatim>\<open>x.setDate(x.getDate() + n)\<close>. ECMAScript sets the day to
  \<^verbatim>\<open>MakeDay(YearFromTime(t), MonthFromTime(t), DateFromTime(t) + n)\<close> for the local time
  \<open>t\<close>, the day number of the first of the month plus the day of the month plus \<open>n\<close> less
  one: the local day number moves by \<open>n\<close>, months and years rolling over, and the local
  time within the day stays; the new time value is the instant the zone gives for that
  local time. An Invalid Date stays one, and \<^verbatim>\<open>NaN\<close> for \<open>n\<close> makes one.
\<close>

definition setDateRelative :: "TimeZone \<Rightarrow> Date \<Rightarrow> int option \<Rightarrow> Date" where
  "setDateRelative tz x n =
     (case (x, n) of
        (TimeValue t, Some k) \<Rightarrow>
          TimeClip (UTC tz (MakeDate (Day (LocalTime tz t) + k) (TimeWithinDay (LocalTime tz t))))
      | _ \<Rightarrow> InvalidDate)"

text \<open>
  \<^verbatim>\<open>
  function startOfWeekMonday(d: Date) {
      const x = new Date(d);
      const day = (x.getDay() + 6) % 7; // Mon=0..Sun=6
      x.setHours(0, 0, 0, 0);
      x.setDate(x.getDate() - day);
      return x;
  }
  \<close>
\<close>

definition startOfWeekMonday :: "TimeZone \<Rightarrow> Date \<Rightarrow> Date" where
  "startOfWeekMonday tz d =
     (let x = newDate d;
          day = map_option (\<lambda>w. (w + 6) mod 7) (getDay tz x);
          x = setHoursZero tz x;
          x = setDateRelative tz x (map_option uminus day)
      in x)"

text \<open>
  \<^verbatim>\<open>
  function addDays(d: Date, n: number) {
      const x = new Date(d);
      x.setDate(x.getDate() + n);
      return x;
  }
  function addWeeks(d: Date, w: number) {
      return addDays(d, w * 7);
  }
  \<close>
  The page calls them with whole numbers.
\<close>

definition addDays :: "TimeZone \<Rightarrow> Date \<Rightarrow> int \<Rightarrow> Date" where
  "addDays tz d n = (let x = newDate d; x = setDateRelative tz x (Some n) in x)"

definition addWeeks :: "TimeZone \<Rightarrow> Date \<Rightarrow> int \<Rightarrow> Date" where
  "addWeeks tz d w = addDays tz d (w * 7)"

subsection \<open>The week in the words of the specification\<close>

text \<open>
  The local time at which the day of the instant \<open>t\<close> begins, and the local time at which
  the Monday of its week begins: the days since Monday taken off and the time of day set
  to zero.
\<close>

definition startOfLocalDay :: "TimeZone \<Rightarrow> int \<Rightarrow> int" where
  "startOfLocalDay tz t = MakeDate (Day (LocalTime tz t)) 0"

definition startOfLocalWeek :: "TimeZone \<Rightarrow> int \<Rightarrow> int" where
  "startOfLocalWeek tz t =
     MakeDate (Day (LocalTime tz t) - (WeekDay (LocalTime tz t) + 6) mod 7) 0"

subsection \<open>Clock changes\<close>

text \<open>
  The local time \<open>x\<close> is on the clock of the zone when, at the instant the zone gives for
  \<open>x\<close>, the local time is \<open>x\<close>. A local time that a clock change skips is not: read with
  the offset before the change, its instant lies after the change, where the clock is
  ahead; when the clock goes from 00:00 to 01:00, the local time 00:00 of that day is
  given the instant of the change, at which the clock shows 01:00.
\<close>

definition clockShows :: "TimeZone \<Rightarrow> int \<Rightarrow> bool" where
  "clockShows tz x \<longleftrightarrow> LocalTime tz (UTC tz x) = x"


subsection \<open>Reference time zones\<close>

text \<open>
  A zone of constant offset \<open>a\<close>, and a zone whose offset is \<open>a\<close> before the instant \<open>T\<close>
  of its one clock change and \<open>b\<close> from \<open>T\<close> on. The clock shows \<open>T + a\<close> just before the
  change and \<open>T + b\<close> at it: when \<open>a < b\<close> the local times from \<open>T + a\<close> to \<open>T + b\<close> are
  skipped, when \<open>b < a\<close> those from \<open>T + b\<close> to \<open>T + a\<close> are repeated, and both are read
  with the offset \<open>a\<close> of before the change.
\<close>

definition fixedOffset :: "int \<Rightarrow> TimeZone" where
  "fixedOffset a = \<lparr>offsetAt = (\<lambda>t. a), offsetOfLocal = (\<lambda>t. a)\<rparr>"


definition utcZone :: TimeZone where
  "utcZone = fixedOffset 0"



section \<open>The page\<close>

text \<open>
  The state of \<^verbatim>\<open>PlanPage\<close> that the week and the grocery list touch (the picker, the
  title map and the layout are left out), and what its handlers and effects do to it.
  \<^verbatim>\<open>type MealPlan = { id: string; week_start: string; user_id: string }\<close>
\<close>

record MealPlan =
  meal_plan_row_id :: jsstring
  week_start :: jsstring
  user_id :: jsstring

record PageState =
  anchorDate :: Date
  plan :: "MealPlan option"
  items :: "PlanItem list"
  loading :: bool
  globalErr :: "jsstring option"
  showGroceries :: bool
  groceryItems :: "jsstring list"
  checked :: "jsstring set"

text \<open>
  The initial values of the \<^verbatim>\<open>useState\<close> calls; \<open>now\<close> is \<^verbatim>\<open>new Date()\<close>. The week shown
  is \<^verbatim>\<open>weekStart = startOfWeekMonday(anchorDate)\<close>.
\<close>

definition initialState :: "TimeZone \<Rightarrow> Date \<Rightarrow> PageState" where
  "initialState tz now =
     \<lparr>anchorDate = startOfWeekMonday tz now, plan = None, items = [], loading = True,
      globalErr = None, showGroceries = False, groceryItems = [], checked = {}\<rparr>"

definition weekStart :: "TimeZone \<Rightarrow> PageState \<Rightarrow> Date" where
  "weekStart tz s = startOfWeekMonday tz (anchorDate s)"

text \<open>
  The effect that runs when the week (or the signed-in user) changes, for a signed-in
  user, from its start to its end. What the store answered decides its path:
  \<^verbatim>\<open>
  setLoading(true); setGlobalErr(null);
  try {
      await ensureUserProfile(...);
      const { data: existing, error: selErr } = await ... maybeSingle();
      if (selErr) throw new Error(selErr.message);
      let planRow = existing ?? null;
      if (!planRow) { ... insert ...; if (error) throw new Error(error.message); planRow = data; }
      setPlan(planRow);
      await fetchItemsFor(planRow.id);   // throws on error, else setItems(data ?? [])
      setShowGroceries(false);
      setChecked(new Set());
      setGroceryItems([]);
  } catch (e: any) {
      setGlobalErr(e.message ?? "Failed to load plan.");
  } finally {
      setLoading(false);
  }
  \<close>
  \<open>PlanQueryFailed\<close>: something threw before \<^verbatim>\<open>setPlan\<close>; \<open>ItemsQueryFailed\<close>: \<^verbatim>\<open>fetchItemsFor\<close>
  threw; \<open>Loaded\<close>: nothing threw. The message is \<open>None\<close> when what was thrown has none.
\<close>

datatype LoadOutcome =
    PlanQueryFailed "jsstring option"
  | ItemsQueryFailed MealPlan "jsstring option"
  | Loaded MealPlan "PlanItem list option"

definition loadWeek :: "LoadOutcome \<Rightarrow> PageState \<Rightarrow> PageState" where
  "loadWeek outcome s =
     (case outcome of
        PlanQueryFailed message \<Rightarrow>
          s\<lparr>globalErr := Some (case message of Some m \<Rightarrow> m | None \<Rightarrow> js ''Failed to load plan.''),
            loading := False\<rparr>
      | ItemsQueryFailed planRow message \<Rightarrow>
          s\<lparr>plan := Some planRow,
            globalErr := Some (case message of Some m \<Rightarrow> m | None \<Rightarrow> js ''Failed to load plan.''),
            loading := False\<rparr>
      | Loaded planRow rows \<Rightarrow>
          s\<lparr>plan := Some planRow,
            items := (case rows of Some r \<Rightarrow> r | None \<Rightarrow> []),
            showGroceries := False, checked := {}, groceryItems := [],
            globalErr := None, loading := False\<rparr>)"

text \<open>
  \<^verbatim>\<open>Array.from(new Set(items.map((i) => i.recipe_id).filter(Boolean)))\<close>: the truthy recipe
  ids, each once, in the order of their first occurrence.
\<close>

definition recipeIds :: "PlanItem list \<Rightarrow> jsstring list" where
  "recipeIds its = rev (remdups (rev (filter (\<lambda>r. r \<noteq> []) (List.map_filter recipe_id its))))"

text \<open>
  \<^verbatim>\<open>
  async function openGroceryList() {
      if (!plan) return;
      const recipeIds = ...;
      if (!recipeIds.length) {
          setGroceryItems([]); setChecked(new Set()); setShowGroceries(true);
          return;
      }
      const { data, error } = await supabase.from("recipes")...in("id", recipeIds);
      if (error) { setGlobalErr(error.message); return; }
      const allLines: string[] = []; ...
      setGroceryItems(dedupeIngredients(allLines));
      setChecked(new Set());
      setShowGroceries(true);
  }
  \<close>
  \<open>answer\<close> is the answer of the store to the query, read only when there are recipe ids.
\<close>

datatype StoreAnswer = StoreError jsstring | StoreData "RecipeWithIngs list option"

definition openGroceryList ::
  "(jsstring \<Rightarrow> jsstring) \<Rightarrow> (jsstring \<Rightarrow> jsstring \<Rightarrow> int) \<Rightarrow> StoreAnswer \<Rightarrow> PageState
     \<Rightarrow> PageState" where
  "openGroceryList toLowerCase localeCompare answer s =
     (if plan s = None then s
      else if recipeIds (items s) = []
        then s\<lparr>groceryItems := [], checked := {}, showGroceries := True\<rparr>
      else case answer of
          StoreError message \<Rightarrow> s\<lparr>globalErr := Some message\<rparr>
        | StoreData data \<Rightarrow>
            s\<lparr>groceryItems := dedupeIngredients toLowerCase localeCompare (allLines data),
              checked := {}, showGroceries := True\<rparr>)"

text \<open>
  \<^verbatim>\<open>
  function toggleChecked(item: string) {
      setChecked((prev) => {
          const next = new Set(prev);
          next.has(item) ? next.delete(item) : next.add(item);
          return next;
      });
  }
  \<close>
\<close>

definition toggleChecked :: "jsstring \<Rightarrow> PageState \<Rightarrow> PageState" where
  "toggleChecked item s =
     s\<lparr>checked := (if item \<in> checked s then checked s - {item} else insert item (checked s))\<rparr>"

text \<open>
  The handlers that change the entries of the plan: they write to the store and, when
  that went well, read the entries again (\<^verbatim>\<open>fetchItemsFor\<close>, which throws on an error
  and else does \<^verbatim>\<open>setItems(data ?? [])\<close>).
  \<^verbatim>\<open>
  async function addRecipeToCell(recipe, day, meal) {
      if (!plan) return;
      setGlobalErr(null);
      try { ... insert ...; if (error) throw new Error(error.message);
            await fetchItemsFor(plan.id);
      } catch (e: any) { setGlobalErr(e.message ?? "Failed to add recipe."); }
  }
  async function removeItem(id: string) {
      if (!plan) return;
      try { ... delete ...; if (error) throw new Error(error.message);
            await fetchItemsFor(plan.id);
      } catch (e: any) { setGlobalErr(e.message ?? "Failed to remove item."); }
  }
  \<close>
  \<^verbatim>\<open>clearCell\<close> and \<^verbatim>\<open>clearWeek\<close> are as \<^verbatim>\<open>removeItem\<close>, after a confirmation. The message
  of \<open>MutationFailed\<close> is the one shown.
\<close>

datatype MutationOutcome = MutationFailed jsstring | Refetched "PlanItem list option"

definition addRecipeToCell :: "MutationOutcome \<Rightarrow> PageState \<Rightarrow> PageState" where
  "addRecipeToCell outcome s =
     (if plan s = None then s
      else case outcome of
          MutationFailed message \<Rightarrow> s\<lparr>globalErr := Some message\<rparr>
        | Refetched rows \<Rightarrow>
            s\<lparr>globalErr := None, items := (case rows of Some r \<Rightarrow> r | None \<Rightarrow> [])\<rparr>)"

definition removeEntries :: "MutationOutcome \<Rightarrow> PageState \<Rightarrow> PageState" where
  "removeEntries outcome s =
     (if plan s = None then s
      else case outcome of
          MutationFailed message \<Rightarrow> s\<lparr>globalErr := Some message\<rparr>
        | Refetched rows \<Rightarrow> s\<lparr>items := (case rows of Some r \<Rightarrow> r | None \<Rightarrow> [])\<rparr>)"

text \<open>
  The events of the page, each a handler or an effect run to its end:
  \<^item> \<open>WeekLoadFinished\<close>: the effect above;
  \<^item> \<open>WeekShifted w\<close>: the buttons Previous and Next,
    \<^verbatim>\<open>setAnchorDate((d) => addWeeks(d, -1))\<close> and \<^verbatim>\<open>setAnchorDate((d) => addWeeks(d, 1))\<close>;
  \<^item> \<open>GroceryListClicked\<close>: \<^verbatim>\<open>openGroceryList\<close>;
  \<^item> \<open>GroceriesClosed\<close>: \<^verbatim>\<open>setShowGroceries(false)\<close>, of the drawer's backdrop and button;
  \<^item> \<open>CheckboxChanged\<close>: \<^verbatim>\<open>toggleChecked(item)\<close>, of the checkbox of a line of the drawer;
  \<^item> \<open>RecipeAdded\<close>: \<^verbatim>\<open>addRecipeToCell\<close>;
  \<^item> \<open>EntriesRemoved\<close>: \<^verbatim>\<open>removeItem\<close>, \<^verbatim>\<open>clearCell\<close> and \<^verbatim>\<open>clearWeek\<close> (once confirmed).
\<close>

datatype Event =
    WeekLoadFinished LoadOutcome
  | WeekShifted int
  | GroceryListClicked StoreAnswer
  | GroceriesClosed
  | CheckboxChanged jsstring
  | RecipeAdded MutationOutcome
  | EntriesRemoved MutationOutcome

definition pageStep ::
  "(jsstring \<Rightarrow> jsstring) \<Rightarrow> (jsstring \<Rightarrow> jsstring \<Rightarrow> int) \<Rightarrow> TimeZone \<Rightarrow> Event \<Rightarrow> PageState
     \<Rightarrow> PageState" where
  "pageStep toLowerCase localeCompare tz ev s =
     (case ev of
        WeekLoadFinished outcome \<Rightarrow> loadWeek outcome s
      | WeekShifted w \<Rightarrow> s\<lparr>anchorDate := addWeeks tz (anchorDate s) w\<rparr>
      | GroceryListClicked answer \<Rightarrow> openGroceryList toLowerCase localeCompare answer s
      | GroceriesClosed \<Rightarrow> s\<lparr>showGroceries := False\<rparr>
      | CheckboxChanged item \<Rightarrow> toggleChecked item s
      | RecipeAdded outcome \<Rightarrow> addRecipeToCell outcome s
      | EntriesRemoved outcome \<Rightarrow> removeEntries outcome s)"

text \<open>
  When the page offers an event: the drawer's controls exist while the drawer is shown, a
  checkbox for each line of the list.
\<close>

definition enabled :: "Event \<Rightarrow> PageState \<Rightarrow> bool" where
  "enabled ev s =
     (case ev of
        WeekShifted w \<Rightarrow> w = 1 \<or> w = - 1
      | GroceriesClosed \<Rightarrow> showGroceries s
      | CheckboxChanged item \<Rightarrow> showGroceries s \<and> item \<in> set (groceryItems s)
      | _ \<Rightarrow> True)"

text \<open>The states the page can be in.\<close>

inductive reachable ::
  "(jsstring \<Rightarrow> jsstring) \<Rightarrow> (jsstring \<Rightarrow> jsstring \<Rightarrow> int) \<Rightarrow> TimeZone \<Rightarrow> PageState \<Rightarrow> bool"
  for toLowerCase localeCompare tz where
    initial: "reachable toLowerCase localeCompare tz (initialState tz now)"
  | step: "reachable toLowerCase localeCompare tz s \<Longrightarrow> enabled ev s \<Longrightarrow>
           reachable toLowerCase localeCompare tz (pageStep toLowerCase localeCompare tz ev s)"

text \<open>
  The runs of \<^verbatim>\<open>openGroceryList\<close> that compute the grocery list anew: there is a plan, and
  either no entry has a recipe or the store answered with data.
\<close>

definition groceryListRecomputed :: "StoreAnswer \<Rightarrow> PageState \<Rightarrow> bool" where
  "groceryListRecomputed answer s \<longleftrightarrow>
     plan s \<noteq> None \<and>
     (recipeIds (items s) = [] \<or>
      (case answer of StoreData data \<Rightarrow> True | StoreError message \<Rightarrow> False))"

subsection \<open>A session of the page\<close>

text \<open>
  On the reference platform, in UTC, opened on Tuesday 2026-11-03 at 10:30: the week of
  Monday 2026-11-02 is loaded with one entry that has a recipe, the grocery list is
  opened, "Milk" is checked, the drawer is closed, Next is clicked, and the items of the
  next week fail to load.
\<close>

definition planOfFirstWeek :: MealPlan where
  "planOfFirstWeek = \<lparr>meal_plan_row_id = js ''p1'', week_start = js ''2026-11-02'',
                        user_id = js ''u1''\<rparr>"

definition planOfNextWeek :: MealPlan where
  "planOfNextWeek = \<lparr>meal_plan_row_id = js ''p2'', week_start = js ''2026-11-09'',
                       user_id = js ''u1''\<rparr>"

definition referenceStep :: "Event \<Rightarrow> PageState \<Rightarrow> PageState" where
  "referenceStep = pageStep asciiToLowerCase compareCodeUnits utcZone"

definition weekLoaded :: PageState where
  "weekLoaded = referenceStep (WeekLoadFinished (Loaded planOfFirstWeek (Some [recipeEntry])))
                  (initialState utcZone (TimeValue 1793701800000))"

definition groceriesOpened :: PageState where
  "groceriesOpened = referenceStep (GroceryListClicked (StoreData (Some [recipeA, recipeB]))) weekLoaded"

definition milkChecked :: PageState where
  "milkChecked = referenceStep (CheckboxChanged (js ''Milk'')) groceriesOpened"

definition drawerClosed :: PageState where
  "drawerClosed = referenceStep GroceriesClosed milkChecked"

definition nextWeekShown :: PageState where
  "nextWeekShown = referenceStep (WeekShifted 1) drawerClosed"

definition nextWeekFailed :: PageState where
  "nextWeekFailed =
     referenceStep (WeekLoadFinished (ItemsQueryFailed planOfNextWeek (Some (js ''Failed to fetch''))))
       nextWeekShown"


chapter \<open>Properties\<close>

section \<open>Trimming\<close>

lemma trim_ends:
  assumes "trim s \<noteq> []"
  shows "\<not> isWhiteSpace (hd (trim s))" and "\<not> isWhiteSpace (last (trim s))"
proof -
  define a where "a = dropWhile isWhiteSpace s"
  define b where "b = dropWhile isWhiteSpace (rev a)"
  have t: "trim s = rev b" by (simp add: trim_def a_def b_def)
  with assms have b: "b \<noteq> []" by simp
  then have hb: "\<not> isWhiteSpace (hd b)" unfolding b_def by (rule hd_dropWhile)
  have "rev a = takeWhile isWhiteSpace (rev a) @ b" by (simp add: b_def)
  then have "a = rev b @ rev (takeWhile isWhiteSpace (rev a))"
    by (metis rev_append rev_rev_ident)
  with b have an: "a \<noteq> []" and ha: "hd a = hd (rev b)"
    by (metis Nil_is_append_conv rev_is_Nil_conv, metis hd_append2 rev_is_Nil_conv)
  from an have "\<not> isWhiteSpace (hd a)" unfolding a_def by (rule hd_dropWhile)
  with ha t show "\<not> isWhiteSpace (hd (trim s))" by simp
  from hb b t show "\<not> isWhiteSpace (last (trim s))" by (simp add: last_rev)
qed

lemma trim_fixed:
  assumes "t \<noteq> [] \<Longrightarrow> \<not> isWhiteSpace (hd t) \<and> \<not> isWhiteSpace (last t)"
  shows "trim t = t"
proof (cases "t = []")
  case True then show ?thesis by (simp add: trim_def)
next
  case False
  with assms have h: "\<not> isWhiteSpace (hd t)" and l: "\<not> isWhiteSpace (last t)" by simp_all
  from False h have 1: "dropWhile isWhiteSpace t = t" by (cases t) simp_all
  from False l have 2: "dropWhile isWhiteSpace (rev t) = rev t"
    by (cases "rev t") (simp_all add: hd_rev [symmetric])
  show ?thesis by (simp add: trim_def 1 2)
qed

lemma trim_idem: "trim (trim s) = trim s"
  by (rule trim_fixed) (simp add: trim_ends)

lemma trim_not_blank:
  assumes "trim s \<noteq> []"
  shows "\<exists>c\<in>set (trim s). \<not> isWhiteSpace c"
  using assms trim_ends(1) [OF assms] by (metis hd_in_set)

section \<open>The map and the sort\<close>

lemma mapSet_new:
  "\<not> mapHas m k \<Longrightarrow> mapSet m k v = m @ [(k, v)]"
  by (induction m) (auto simp: mapHas_def)

lemma mset_insertSorted: "mset (insertSorted cmp x ys) = add_mset x (mset ys)"
  by (induction ys) simp_all

lemma mset_arraySort: "mset (arraySort cmp xs) = mset xs"
  by (induction xs) (simp_all add: arraySort_def mset_insertSorted)

lemma set_insertSorted: "set (insertSorted cmp x ys) = insert x (set ys)"
  by (induction ys) auto

lemma sorted_insertSorted:
  assumes "consistentComparator cmp" "sorted_wrt (\<lambda>a b. cmp a b \<le> 0) ys"
  shows "sorted_wrt (\<lambda>a b. cmp a b \<le> 0) (insertSorted cmp x ys)"
  using assms(2)
proof (induction ys)
  case Nil then show ?case by simp
next
  case (Cons y ys)
  from assms(1) have tot: "\<And>a b. cmp a b \<le> 0 \<or> cmp b a \<le> 0"
    and tr: "\<And>a b c. cmp a b \<le> 0 \<Longrightarrow> cmp b c \<le> 0 \<Longrightarrow> cmp a c \<le> 0"
    unfolding consistentComparator_def by blast+
  show ?case
  proof (cases "cmp x y \<le> 0")
    case True
    with Cons.prems tr show ?thesis by auto
  next
    case False
    with tot have "cmp y x \<le> 0" by blast
    with False Cons show ?thesis by (auto simp: set_insertSorted)
  qed
qed

lemma sorted_arraySort:
  "consistentComparator cmp \<Longrightarrow> sorted_wrt (\<lambda>a b. cmp a b \<le> 0) (arraySort cmp xs)"
  by (induction xs) (simp_all add: arraySort_def sorted_insertSorted)

lemma arraySort_sorted_id:
  "sorted_wrt (\<lambda>a b. cmp a b \<le> 0) xs \<Longrightarrow> arraySort cmp xs = xs"
proof (induction xs)
  case Nil then show ?case by (simp add: arraySort_def)
next
  case (Cons x xs)
  then have "arraySort cmp xs = xs" by simp
  then have "arraySort cmp (x # xs) = insertSorted cmp x xs" by (simp add: arraySort_def)
  also from Cons.prems have "\<dots> = x # xs" by (cases xs) simp_all
  finally show ?case .
qed

section \<open>The loop of dedupeIngredients\<close>

lemma dedupe_loop_inv:
  "map fst (foldl (dedupeStep lc) [] ls) =
     map (\<lambda>i. lc (trim (ls ! i))) (filter (firstOccurrence lc ls) [0..<length ls]) \<and>
   map snd (foldl (dedupeStep lc) [] ls) = representatives lc ls \<and>
   fst ` set (foldl (dedupeStep lc) [] ls) = {lc (trim l) | l. l \<in> set ls} - {[]}"
proof (induction ls rule: rev_induct)
  case Nil
  then show ?case by (simp add: representatives_def)
next
  case (snoc l ls)
  let ?m = "foldl (dedupeStep lc) [] ls"
  let ?n = "length ls"
  have old: "\<And>i. i < ?n \<Longrightarrow> firstOccurrence lc (ls @ [l]) i = firstOccurrence lc ls i"
    by (simp add: firstOccurrence_def nth_append)
  have f: "filter (firstOccurrence lc (ls @ [l])) [0..<?n] = filter (firstOccurrence lc ls) [0..<?n]"
    by (rule filter_cong) (simp_all add: old)
  have new: "firstOccurrence lc (ls @ [l]) ?n \<longleftrightarrow>
      lc (trim l) \<noteq> [] \<and> \<not> mapHas ?m (lc (trim l))"
  proof -
    have "(\<forall>j<?n. lc (trim ((ls @ [l]) ! j)) \<noteq> lc (trim l)) \<longleftrightarrow>
          (\<forall>l'\<in>set ls. lc (trim l') \<noteq> lc (trim l))"
      by (simp add: nth_append all_set_conv_all_nth)
    then show ?thesis
      using snoc by (auto simp: firstOccurrence_def mapHas_def)
  qed
  have m1: "map (\<lambda>i. lc (trim ((ls @ [l]) ! i))) (filter (firstOccurrence lc ls) [0..<?n])
      = map (\<lambda>i. lc (trim (ls ! i))) (filter (firstOccurrence lc ls) [0..<?n])"
    by (rule map_cong) (simp_all add: nth_append)
  have m2: "map (\<lambda>i. trim ((ls @ [l]) ! i)) (filter (firstOccurrence lc ls) [0..<?n])
      = map (\<lambda>i. trim (ls ! i)) (filter (firstOccurrence lc ls) [0..<?n])"
    by (rule map_cong) (simp_all add: nth_append)
  have idx: "filter (firstOccurrence lc (ls @ [l])) [0..<length (ls @ [l])] =
      filter (firstOccurrence lc ls) [0..<?n] @
        (if firstOccurrence lc (ls @ [l]) ?n then [?n] else [])"
    by (simp add: f)
  have fo: "foldl (dedupeStep lc) [] (ls @ [l]) = dedupeStep lc ?m l" by simp
  from snoc have ih1: "map fst ?m =
      map (\<lambda>i. lc (trim (ls ! i))) (filter (firstOccurrence lc ls) [0..<?n])"
    and ih2: "map snd ?m = representatives lc ls"
    and ih3: "fst ` set ?m = {lc (trim l) | l. l \<in> set ls} - {[]}" by simp_all
  show ?case
  proof (cases "firstOccurrence lc (ls @ [l]) ?n")
    case True
    with new have k: "lc (trim l) \<noteq> []" and h: "\<not> mapHas ?m (lc (trim l))" by simp_all
    then have st: "dedupeStep lc ?m l = ?m @ [(lc (trim l), trim l)]"
      by (simp add: dedupeStep_def mapSet_new)
    have 1: "map fst (dedupeStep lc ?m l) =
        map (\<lambda>i. lc (trim ((ls @ [l]) ! i))) (filter (firstOccurrence lc (ls @ [l])) [0..<length (ls @ [l])])"
      unfolding idx st using True by (simp add: ih1 m1)
    have 2: "map snd (dedupeStep lc ?m l) = representatives lc (ls @ [l])"
      unfolding representatives_def idx st using True
      by (simp add: ih2 [unfolded representatives_def] m2)
    have 3: "fst ` set (dedupeStep lc ?m l) = {lc (trim l') | l'. l' \<in> set (ls @ [l])} - {[]}"
      unfolding st using k by (auto simp: ih3)
    show ?thesis unfolding fo using 1 2 3 by blast
  next
    case False
    with new have st: "dedupeStep lc ?m l = ?m"
      by (auto simp: dedupeStep_def Let_def)
    from False new have c: "lc (trim l) = [] \<or> lc (trim l) \<in> fst ` set ?m"
      by (auto simp: mapHas_def)
    have 1: "map fst (dedupeStep lc ?m l) =
        map (\<lambda>i. lc (trim ((ls @ [l]) ! i))) (filter (firstOccurrence lc (ls @ [l])) [0..<length (ls @ [l])])"
      unfolding idx st using False by (simp add: ih1 m1)
    have 2: "map snd (dedupeStep lc ?m l) = representatives lc (ls @ [l])"
      unfolding representatives_def idx st using False
      by (simp add: ih2 [unfolded representatives_def] m2)
    have 3: "fst ` set (dedupeStep lc ?m l) = {lc (trim l') | l'. l' \<in> set (ls @ [l])} - {[]}"
      unfolding st using c by (auto simp: ih3)
    show ?thesis unfolding fo using 1 2 3 by blast
  qed
qed

lemma dedupe_values: "mapValues (foldl (dedupeStep lc) [] ls) = representatives lc ls"
  by (simp add: mapValues_def dedupe_loop_inv)


section \<open>First occurrences\<close>

lemma representatives_trimmed:
  assumes "v \<in> set (representatives lc ls)"
  shows "trim v = v" and "lc v \<noteq> []"
proof -
  from assms obtain i where i: "firstOccurrence lc ls i" and v: "v = trim (ls ! i)"
    by (auto simp: representatives_def)
  from v show "trim v = v" by (simp add: trim_idem)
  from i v show "lc v \<noteq> []" by (simp add: firstOccurrence_def)
qed

lemma representatives_distinct_keys:
  "distinct (map (\<lambda>v. lc (trim v)) (representatives lc ls))"
proof -
  let ?idx = "filter (firstOccurrence lc ls) [0..<length ls]"
  have "inj_on (\<lambda>i. lc (trim (ls ! i))) (set ?idx)"
  proof (rule inj_onI)
    fix i j
    assume i: "i \<in> set ?idx" and j: "j \<in> set ?idx"
      and e: "lc (trim (ls ! i)) = lc (trim (ls ! j))"
    show "i = j"
    proof (rule ccontr)
      assume "i \<noteq> j"
      then consider "i < j" | "j < i" by linarith
      then show False
        using i j e by cases (auto simp: firstOccurrence_def)
    qed
  qed
  then have "distinct (map (\<lambda>i. lc (trim (ls ! i))) ?idx)"
    by (simp add: distinct_map)
  then show ?thesis
    by (simp add: representatives_def comp_def trim_idem)
qed

lemma representatives_id:
  assumes d: "distinct (map (\<lambda>v. lc (trim v)) xs)"
    and n: "\<forall>v\<in>set xs. lc (trim v) \<noteq> []"
  shows "representatives lc xs = map trim xs"
proof -
  have "\<And>i. i \<in> set [0..<length xs] \<Longrightarrow> firstOccurrence lc xs i"
  proof -
    fix i assume "i \<in> set [0..<length xs]"
    then have i: "i < length xs" by simp
    {
      fix j assume j: "j < i"
      let ?ks = "map (\<lambda>v. lc (trim v)) xs"
      from i j have "j < length ?ks" "i < length ?ks" "j \<noteq> i" by simp_all
      with d have "?ks ! j \<noteq> ?ks ! i"
        using nth_eq_iff_index_eq [of ?ks j i] by blast
      with i j have "lc (trim (xs ! j)) \<noteq> lc (trim (xs ! i))" by simp
    }
    with i n show "firstOccurrence lc xs i" by (simp add: firstOccurrence_def)
  qed
  then have "filter (firstOccurrence lc xs) [0..<length xs] = [0..<length xs]"
    by (simp add: filter_id_conv)
  then have "representatives lc xs = map (\<lambda>i. trim (xs ! i)) [0..<length xs]"
    by (simp add: representatives_def)
  also have "\<dots> = map trim (map (\<lambda>i. xs ! i) [0..<length xs])" by simp
  also have "\<dots> = map trim xs" by (simp only: map_nth)
  finally show ?thesis .
qed

section \<open>The output of dedupeIngredients\<close>

lemma dedupe_eq: "dedupeIngredients lc cmp ls = arraySort cmp (representatives lc ls)"
  by (simp add: dedupeIngredients_def dedupe_values)

lemma dedupe_set: "set (dedupeIngredients lc cmp ls) = set (representatives lc ls)"
  by (metis dedupe_eq mset_arraySort set_mset_mset)

lemma dedupe_distinct_keys:
  "distinct (map (\<lambda>v. lc (trim v)) (dedupeIngredients lc cmp ls))"
proof -
  have "mset (map (\<lambda>v. lc (trim v)) (dedupeIngredients lc cmp ls)) =
        mset (map (\<lambda>v. lc (trim v)) (representatives lc ls))"
    by (simp add: dedupe_eq mset_arraySort)
  then show ?thesis
    using representatives_distinct_keys [of lc ls] by (metis mset_eq_imp_distinct_iff)
qed

lemma dedupe_idem:
  assumes "consistentComparator cmp"
  shows "dedupeIngredients lc cmp (dedupeIngredients lc cmp ls) = dedupeIngredients lc cmp ls"
proof -
  let ?out = "dedupeIngredients lc cmp ls"
  have t: "\<forall>v\<in>set ?out. trim v = v" and k: "\<forall>v\<in>set ?out. lc (trim v) \<noteq> []"
    by (simp_all add: dedupe_set representatives_trimmed)
  have "representatives lc ?out = map trim ?out"
    by (rule representatives_id [OF dedupe_distinct_keys k])
  also from t have "\<dots> = ?out" by (simp add: map_idI)
  finally have "dedupeIngredients lc cmp ?out = arraySort cmp ?out" by (simp add: dedupe_eq)
  also have "\<dots> = ?out"
    by (rule arraySort_sorted_id) (simp add: dedupe_eq sorted_arraySort assms)
  finally show ?thesis .
qed

lemma compareCodeUnits_total: "compareCodeUnits a b \<le> 0 \<or> compareCodeUnits b a \<le> 0"
  by (induction a b rule: compareCodeUnits.induct) auto

lemma compareCodeUnits_trans:
  "compareCodeUnits a b \<le> 0 \<Longrightarrow> compareCodeUnits b c \<le> 0 \<Longrightarrow> compareCodeUnits a c \<le> 0"
proof (induction a b arbitrary: c rule: compareCodeUnits.induct)
  case 1 then show ?case by simp
next
  case (2 y ys) then show ?case by (cases c) simp_all
next
  case (3 x xs) then show ?case by simp
next
  case (4 x xs y ys)
  then show ?case by (cases c) (auto split: if_splits)
qed

lemma compareCodeUnits_consistent: "consistentComparator compareCodeUnits"
  unfolding consistentComparator_def
  using compareCodeUnits_total compareCodeUnits_trans by blast


lemma allLines_one_line:
  assumes "\<And>l. ingredients (mk l) = Some [l]"
  shows "allLines (Some (map mk xs)) = xs"
  by (induction xs) (simp_all add: allLines_def assms)

lemma allLines_no_ingredients:
  assumes "\<forall>r\<in>set rs. ingredients r = None \<or> ingredients r = Some []"
  shows "allLines (Some rs) = []"
  using assms by (induction rs) (auto simp: allLines_def)

lemma trim_example_lines:
  "trim (js ''2 eggs'') = js ''2 eggs''" "trim (js ''Milk'') = js ''Milk''"
  "trim (js ''milk'') = js ''milk''" "trim (js ''2 Eggs'') = js ''2 Eggs''"
  "trim (js ''Salt'') = js ''Salt''"
  by (simp_all add: trim_def js_def isWhiteSpace_def)

lemma js_example_nonempty:
  "js ''2 eggs'' \<noteq> []" "js ''milk'' \<noteq> []" "js ''salt'' \<noteq> []"
  "js ''milk'' \<noteq> js ''2 eggs''" "js ''salt'' \<noteq> js ''2 eggs''" "js ''salt'' \<noteq> js ''milk''"
  "js ''2 eggs'' \<noteq> js ''milk''" "js ''2 eggs'' \<noteq> js ''salt''" "js ''milk'' \<noteq> js ''salt''"
  by (simp_all add: js_def)

lemma allLines_example:
  "allLines (Some [recipeA, recipeB]) =
     [js ''2 eggs'', js ''Milk'', js ''milk'', js ''2 Eggs'', js ''Salt'']"
  by (simp add: allLines_def recipeA_def recipeB_def)

lemma dedupe_example:
  assumes lc: "toLowerCase (js ''2 eggs'') = js ''2 eggs''"
    "toLowerCase (js ''Milk'') = js ''milk''" "toLowerCase (js ''milk'') = js ''milk''"
    "toLowerCase (js ''2 Eggs'') = js ''2 eggs''" "toLowerCase (js ''Salt'') = js ''salt''"
    and cmp: "localeCompare (js ''2 eggs'') (js ''Milk'') \<le> 0"
    "localeCompare (js ''Milk'') (js ''Salt'') \<le> 0"
  shows "dedupeIngredients toLowerCase localeCompare (allLines (Some [recipeA, recipeB])) =
      [js ''2 eggs'', js ''Milk'', js ''Salt'']"
proof -
  let ?m1 = "[(js ''2 eggs'', js ''2 eggs'')]"
  let ?m2 = "[(js ''2 eggs'', js ''2 eggs''), (js ''milk'', js ''Milk'')]"
  let ?m3 = "[(js ''2 eggs'', js ''2 eggs''), (js ''milk'', js ''Milk''), (js ''salt'', js ''Salt'')]"
  have s1: "dedupeStep toLowerCase [] (js ''2 eggs'') = ?m1"
    by (simp add: dedupeStep_def Let_def trim_example_lines lc mapHas_def js_example_nonempty)
  have s2: "dedupeStep toLowerCase ?m1 (js ''Milk'') = ?m2"
    by (simp add: dedupeStep_def Let_def trim_example_lines lc mapHas_def js_example_nonempty)
  have s3: "dedupeStep toLowerCase ?m2 (js ''milk'') = ?m2"
    by (simp add: dedupeStep_def Let_def trim_example_lines lc mapHas_def js_example_nonempty)
  have s4: "dedupeStep toLowerCase ?m2 (js ''2 Eggs'') = ?m2"
    by (simp add: dedupeStep_def Let_def trim_example_lines lc mapHas_def js_example_nonempty)
  have s5: "dedupeStep toLowerCase ?m2 (js ''Salt'') = ?m3"
    by (simp add: dedupeStep_def Let_def trim_example_lines lc mapHas_def js_example_nonempty)
  have "foldl (dedupeStep toLowerCase) [] (allLines (Some [recipeA, recipeB])) = ?m3"
    by (simp add: allLines_example s1 s2 s3 s4 s5)
  then show ?thesis
    using cmp by (simp add: dedupeIngredients_def mapValues_def arraySort_def)
qed

lemma reference_lower_example:
  "asciiToLowerCase (js ''2 eggs'') = js ''2 eggs''"
  "asciiToLowerCase (js ''Milk'') = js ''milk''"
  "asciiToLowerCase (js ''milk'') = js ''milk''"
  "asciiToLowerCase (js ''2 Eggs'') = js ''2 eggs''"
  "asciiToLowerCase (js ''Salt'') = js ''salt''"
  "asciiToLowerCase [] = []"
  by (simp_all add: asciiToLowerCase_def js_def)

lemma reference_compare_example:
  "compareCodeUnits (js ''2 eggs'') (js ''Milk'') \<le> 0"
  "compareCodeUnits (js ''Milk'') (js ''Salt'') \<le> 0"
  "\<not> compareCodeUnits (js ''Milk'') (js ''2 eggs'') \<le> 0"
  by (simp_all add: js_def)

lemma trim_blank_lines:
  "trim (js '' Milk'') = js ''Milk''" "trim (js ''   '') = []" "trim (js ''milk '') = js ''milk''"
  by (simp_all add: trim_def js_def isWhiteSpace_def)

lemma dedupe_blank_example:
  "dedupeIngredients asciiToLowerCase compareCodeUnits
     [js '' Milk'', js ''   '', js ''milk '', js ''2 eggs''] = [js ''2 eggs'', js ''Milk'']"
proof -
  let ?m1 = "[(js ''milk'', js ''Milk'')]"
  let ?m2 = "[(js ''milk'', js ''Milk''), (js ''2 eggs'', js ''2 eggs'')]"
  have s1: "dedupeStep asciiToLowerCase [] (js '' Milk'') = ?m1"
    by (simp add: dedupeStep_def Let_def trim_blank_lines reference_lower_example mapHas_def
        js_example_nonempty)
  have s2: "dedupeStep asciiToLowerCase ?m1 (js ''   '') = ?m1"
    by (simp add: dedupeStep_def Let_def trim_blank_lines reference_lower_example)
  have s3: "dedupeStep asciiToLowerCase ?m1 (js ''milk '') = ?m1"
    by (simp add: dedupeStep_def Let_def trim_blank_lines reference_lower_example mapHas_def
        js_example_nonempty)
  have s4: "dedupeStep asciiToLowerCase ?m1 (js ''2 eggs'') = ?m2"
    by (simp add: dedupeStep_def Let_def trim_example_lines reference_lower_example mapHas_def
        js_example_nonempty)
  show ?thesis
    by (simp add: dedupeIngredients_def s1 s2 s3 s4 mapValues_def arraySort_def
        reference_compare_example)
qed

section \<open>The claims on the grocery aggregation\<close>

text \<open>
  Claim C1. \<open>dedupeIngredients\<close> keys each line by its trimmed, lower-cased text and keeps,
  for every key that is not empty, the trimmed original text of the first line with that
  key; every later line with the same key is discarded, whatever its casing: the result
  is the sorted list of the representatives. For the recipes A, with the ingredients
  "2 eggs" and "Milk", and B, with "milk", "2 Eggs" and "Salt", the aggregation of A then B
  is "2 eggs", "Milk", "Salt", on every platform that lower-cases these five lines as
  ASCII does and whose collation puts "2 eggs" before "Milk" before "Salt".
\<close>

theorem dedupeIngredients_keeps_first_occurrence:
  "dedupeIngredients toLowerCase localeCompare lines =
     arraySort localeCompare (representatives toLowerCase lines) \<and>
   (toLowerCase (js ''2 eggs'') = js ''2 eggs'' \<and> toLowerCase (js ''Milk'') = js ''milk'' \<and>
    toLowerCase (js ''milk'') = js ''milk'' \<and> toLowerCase (js ''2 Eggs'') = js ''2 eggs'' \<and>
    toLowerCase (js ''Salt'') = js ''salt'' \<and>
    localeCompare (js ''2 eggs'') (js ''Milk'') \<le> 0 \<and>
    localeCompare (js ''Milk'') (js ''Salt'') \<le> 0 \<longrightarrow>
    dedupeIngredients toLowerCase localeCompare (allLines (Some [recipeA, recipeB])) =
      [js ''2 eggs'', js ''Milk'', js ''Salt''])"
  using dedupe_eq [of toLowerCase localeCompare lines]
    dedupe_example [of toLowerCase localeCompare]
  by blast

theorem dedupeIngredients_keeps_first_occurrence_witness:
  "dedupeIngredients asciiToLowerCase compareCodeUnits (allLines (Some [recipeA, recipeB])) =
      [js ''2 eggs'', js ''Milk'', js ''Salt''] \<and>
   arraySort compareCodeUnits
     (representatives asciiToLowerCase (allLines (Some [recipeA, recipeB]))) =
      [js ''2 eggs'', js ''Milk'', js ''Salt'']"
proof -
  note t = dedupeIngredients_keeps_first_occurrence
    [of asciiToLowerCase compareCodeUnits "allLines (Some [recipeA, recipeB])"]
  from t reference_lower_example reference_compare_example have
    "dedupeIngredients asciiToLowerCase compareCodeUnits (allLines (Some [recipeA, recipeB])) =
      [js ''2 eggs'', js ''Milk'', js ''Salt'']"
    by blast
  with t show ?thesis by simp
qed

text \<open>
  Claim C3. On a platform that lower-cases the empty string to itself and whose collation
  is a consistent comparator, no two elements of the output of \<open>dedupeIngredients\<close> are
  equal after trimming and lower-casing, no element is empty or consists of white space
  only, and the output is sorted ascending under the comparison used.
\<close>

theorem dedupeIngredients_output_distinct_nonblank_sorted:
  assumes "toLowerCase [] = []" and "consistentComparator localeCompare"
  shows "distinct (map (\<lambda>v. toLowerCase (trim v)) (dedupeIngredients toLowerCase localeCompare lines)) \<and>
         (\<forall>v\<in>set (dedupeIngredients toLowerCase localeCompare lines).
            v \<noteq> [] \<and> (\<exists>c\<in>set v. \<not> isWhiteSpace c)) \<and>
         sorted_wrt (\<lambda>a b. localeCompare a b \<le> 0) (dedupeIngredients toLowerCase localeCompare lines)"
proof (intro conjI ballI)
  show "distinct (map (\<lambda>v. toLowerCase (trim v)) (dedupeIngredients toLowerCase localeCompare lines))"
    by (rule dedupe_distinct_keys)
next
  fix v assume "v \<in> set (dedupeIngredients toLowerCase localeCompare lines)"
  then have v: "v \<in> set (representatives toLowerCase lines)" by (simp add: dedupe_set)
  then have t: "trim v = v" and k: "toLowerCase v \<noteq> []"
    by (rule representatives_trimmed)+
  from k assms(1) show n: "v \<noteq> []" by auto
  with t have "trim v \<noteq> []" by simp
  then have "\<exists>c\<in>set (trim v). \<not> isWhiteSpace c" by (rule trim_not_blank)
  with t show "\<exists>c\<in>set v. \<not> isWhiteSpace c" by simp
next
  show "sorted_wrt (\<lambda>a b. localeCompare a b \<le> 0) (dedupeIngredients toLowerCase localeCompare lines)"
    by (simp add: dedupe_eq sorted_arraySort assms(2))
qed

theorem dedupeIngredients_output_distinct_nonblank_sorted_witness:
  "asciiToLowerCase [] = [] \<and> consistentComparator compareCodeUnits \<and>
   distinct (map (\<lambda>v. asciiToLowerCase (trim v))
     (dedupeIngredients asciiToLowerCase compareCodeUnits
        [js '' Milk'', js ''   '', js ''milk '', js ''2 eggs''])) \<and>
   sorted_wrt (\<lambda>a b. compareCodeUnits a b \<le> 0)
     (dedupeIngredients asciiToLowerCase compareCodeUnits
        [js '' Milk'', js ''   '', js ''milk '', js ''2 eggs'']) \<and>
   [] \<notin> set (dedupeIngredients asciiToLowerCase compareCodeUnits
        [js '' Milk'', js ''   '', js ''milk '', js ''2 eggs'']) \<and>
   dedupeIngredients asciiToLowerCase compareCodeUnits
        [js '' Milk'', js ''   '', js ''milk '', js ''2 eggs''] = [js ''2 eggs'', js ''Milk'']"
proof -
  have a: "asciiToLowerCase [] = []" by (rule reference_lower_example)
  from dedupeIngredients_output_distinct_nonblank_sorted
    [of asciiToLowerCase compareCodeUnits "[js '' Milk'', js ''   '', js ''milk '', js ''2 eggs'']",
      OF a compareCodeUnits_consistent]
  show ?thesis using a compareCodeUnits_consistent dedupe_blank_example by auto
qed

text \<open>
  Claim C6. The aggregation is idempotent: aggregating the lines of an aggregation, each
  line as a recipe with that one ingredient, returns the same sequence (on a platform
  whose collation is a consistent comparator).
\<close>

theorem aggregation_idempotent:
  assumes "consistentComparator localeCompare"
    and "\<And>l. ingredients (oneLineRecipe l) = Some [l]"
  shows "dedupeIngredients toLowerCase localeCompare
           (allLines (Some (map oneLineRecipe
              (dedupeIngredients toLowerCase localeCompare (allLines recipes))))) =
         dedupeIngredients toLowerCase localeCompare (allLines recipes)"
  by (simp add: allLines_one_line [of oneLineRecipe, OF assms(2)] dedupe_idem [OF assms(1)])

theorem aggregation_idempotent_witness:
  "dedupeIngredients asciiToLowerCase compareCodeUnits
     (allLines (Some (map (\<lambda>l. \<lparr>recipe_with_ings_id = l, recipe_with_ings_title = l,
                               ingredients = Some [l]\<rparr>)
        (dedupeIngredients asciiToLowerCase compareCodeUnits (allLines (Some [recipeA, recipeB])))))) =
   [js ''2 eggs'', js ''Milk'', js ''Salt'']"
proof -
  have "dedupeIngredients asciiToLowerCase compareCodeUnits (allLines (Some [recipeA, recipeB])) =
      [js ''2 eggs'', js ''Milk'', js ''Salt'']"
    using dedupe_example [of asciiToLowerCase compareCodeUnits]
    by (simp add: reference_lower_example reference_compare_example)
  with aggregation_idempotent [OF compareCodeUnits_consistent,
      of "\<lambda>l. \<lparr>recipe_with_ings_id = l, recipe_with_ings_title = l, ingredients = Some [l]\<rparr>"
         asciiToLowerCase "Some [recipeA, recipeB]"]
  show ?thesis by simp
qed

section \<open>The cells of the grid\<close>

lemma count_list_filter:
  "count_list (filter P xs) x = (if P x then count_list xs x else 0)"
  by (induction xs) auto

lemma MEAL_TYPES_distinct: "distinct MEAL_TYPES"
  by (simp add: MEAL_TYPES_def js_def)

lemma length_MEAL_TYPES: "length MEAL_TYPES = 4"
  by (simp add: MEAL_TYPES_def)

lemma concat_weekGrid:
  "concat (weekGrid entries) = map (\<lambda>(meal, dayIndex). cellItems entries dayIndex meal) gridCells"
  by (simp add: weekGrid_def gridCells_def map_concat comp_def)

lemma length_gridCells: "length gridCells = 28"
  by (simp add: gridCells_def MEAL_TYPES_def)

lemma set_gridCells: "set gridCells = set MEAL_TYPES \<times> {0..<7}"
  by (auto simp: gridCells_def)

lemma gridCells_product: "gridCells = List.product MEAL_TYPES [0..<7]"
  by (simp add: gridCells_def product_concat_map)

lemma distinct_gridCells: "distinct gridCells"
  by (simp add: gridCells_product distinct_product MEAL_TYPES_distinct)

lemma sum_indicator_exclusive:
  assumes "distinct cs" and "\<And>c c'. c \<in> set cs \<Longrightarrow> c' \<in> set cs \<Longrightarrow> Q c \<Longrightarrow> Q c' \<Longrightarrow> c = c'"
  shows "sum_list (map (\<lambda>c. if Q c then 1 else 0) cs) = (if \<exists>c\<in>set cs. Q c then 1 else (0::nat))"
  using assms
proof (induction cs)
  case Nil then show ?case by simp
next
  case (Cons c cs)
  then have ih: "sum_list (map (\<lambda>c. if Q c then 1 else 0) cs) = (if \<exists>c\<in>set cs. Q c then 1 else (0::nat))"
    by simp
  show ?case
  proof (cases "Q c")
    case True
    with Cons.prems have "\<not> (\<exists>c'\<in>set cs. Q c')" by auto
    with True ih show ?thesis by simp
  next
    case False
    with ih show ?thesis by simp
  qed
qed

lemma sum_length_filter_exclusive:
  assumes "distinct cs"
    and "\<And>c c' x. c \<in> set cs \<Longrightarrow> c' \<in> set cs \<Longrightarrow> Q c x \<Longrightarrow> Q c' x \<Longrightarrow> c = c'"
  shows "sum_list (map (\<lambda>c. length (filter (Q c) xs)) cs) =
         length (filter (\<lambda>x. \<exists>c\<in>set cs. Q c x) xs)"
proof (induction xs)
  case Nil then show ?case by simp
next
  case (Cons x xs)
  have "sum_list (map (\<lambda>c. length (filter (Q c) (x # xs))) cs) =
        sum_list (map (\<lambda>c. (if Q c x then 1 else 0) + length (filter (Q c) xs)) cs)"
    by (rule arg_cong [where f = sum_list], rule map_cong) simp_all
  also have "\<dots> = sum_list (map (\<lambda>c. if Q c x then 1 else 0) cs) +
        sum_list (map (\<lambda>c. length (filter (Q c) xs)) cs)"
    by (simp add: sum_list_addf)
  also have "sum_list (map (\<lambda>c. if Q c x then 1 else 0) cs) = (if \<exists>c\<in>set cs. Q c x then 1 else (0::nat))"
    by (rule sum_indicator_exclusive [OF assms(1)]) (rule assms(2))
  finally show ?case using Cons by simp
qed

lemma wellFormed_iff_cell:
  "wellFormedEntry it \<longleftrightarrow>
     (\<exists>c\<in>set gridCells. day it = int (snd c) \<and> meal_type it = fst c)"
proof
  assume w: "wellFormedEntry it"
  then have "nat (day it) < 7" "day it = int (nat (day it))" "meal_type it \<in> set MEAL_TYPES"
    by (auto simp: wellFormedEntry_def)
  then have "(meal_type it, nat (day it)) \<in> set gridCells" by (simp add: set_gridCells)
  with \<open>day it = int (nat (day it))\<close> show "\<exists>c\<in>set gridCells. day it = int (snd c) \<and> meal_type it = fst c"
    by force
next
  assume "\<exists>c\<in>set gridCells. day it = int (snd c) \<and> meal_type it = fst c"
  then show "wellFormedEntry it"
    by (auto simp: set_gridCells wellFormedEntry_def)
qed

lemma cells_total:
  "sum_list (map length (concat (weekGrid entries))) = length (filter wellFormedEntry entries)"
proof -
  let ?Q = "\<lambda>c it. day it = int (snd c) \<and> meal_type it = fst c"
  have "map length (concat (weekGrid entries)) = map (\<lambda>c. length (filter (?Q c) entries)) gridCells"
    by (simp add: concat_weekGrid cellItems_def case_prod_beta)
  then have "sum_list (map length (concat (weekGrid entries))) =
      sum_list (map (\<lambda>c. length (filter (?Q c) entries)) gridCells)" by simp
  also have "\<dots> = length (filter (\<lambda>it. \<exists>c\<in>set gridCells. ?Q c it) entries)"
    by (rule sum_length_filter_exclusive [OF distinct_gridCells]) (auto simp: prod_eq_iff)
  also have "\<dots> = length (filter wellFormedEntry entries)"
    by (rule arg_cong [where f = length], rule filter_cong)
       (simp_all add: wellFormed_iff_cell)
  finally show ?thesis .
qed


lemma weekGrid_nth:
  assumes "mi < length MEAL_TYPES" "dayIndex < 7"
  shows "weekGrid entries ! mi ! dayIndex = cellItems entries dayIndex (MEAL_TYPES ! mi)"
  using assms by (simp add: weekGrid_def)

lemma length_concat_weekGrid: "length (concat (weekGrid entries)) = 28"
  by (simp add: concat_weekGrid length_gridCells)

lemma itemLabel_cases:
  "recipe_id it = Some r \<Longrightarrow> r \<noteq> [] \<Longrightarrow> recipeTitleMap r = Some title \<Longrightarrow>
     itemLabel recipeTitleMap it = title"
  "recipe_id it = Some r \<Longrightarrow> r \<noteq> [] \<Longrightarrow> recipeTitleMap r = None \<Longrightarrow>
     itemLabel recipeTitleMap it = js ''Recipe''"
  "recipe_id it = None \<Longrightarrow> item_notes it = Some n \<Longrightarrow> itemLabel recipeTitleMap it = n"
  "recipe_id it = None \<Longrightarrow> item_notes it = None \<Longrightarrow> itemLabel recipeTitleMap it = js ''Item''"
  by (simp_all add: itemLabel_def)

section \<open>The claims on the week grid\<close>

text \<open>
  Claim C2. The grid has 28 cells, the cell of row \<open>mi\<close> and column \<open>dayIndex\<close> being
  \<open>cellItems\<close> of that day and of the meal \<open>MEAL_TYPES ! mi\<close>. A cell is a subsequence of
  the entries (their relative order is kept) and holds every entry of its day and meal as
  often as the input does, and nothing else. The label of an entry is the title the map
  gives its recipe reference, "Recipe" when the map has no title for the reference, the
  notes when the entry has no reference and notes, "Item" when it has neither.
\<close>

theorem weekGrid_stable_partition_and_labels:
  "length (concat (weekGrid entries)) = 28 \<and>
   (\<forall>mi<length MEAL_TYPES. \<forall>dayIndex<7.
      weekGrid entries ! mi ! dayIndex = cellItems entries dayIndex (MEAL_TYPES ! mi)) \<and>
   subseq (cellItems entries dayIndex meal) entries \<and>
   (\<forall>it. count_list (cellItems entries dayIndex meal) it =
      (if day it = int dayIndex \<and> meal_type it = meal then count_list entries it else 0)) \<and>
   (recipe_id it = Some r \<and> r \<noteq> [] \<and> recipeTitleMap r = Some title \<longrightarrow>
      itemLabel recipeTitleMap it = title) \<and>
   (recipe_id it = Some r \<and> r \<noteq> [] \<and> recipeTitleMap r = None \<longrightarrow>
      itemLabel recipeTitleMap it = js ''Recipe'') \<and>
   (recipe_id it = None \<and> item_notes it = Some n \<longrightarrow> itemLabel recipeTitleMap it = n) \<and>
   (recipe_id it = None \<and> item_notes it = None \<longrightarrow> itemLabel recipeTitleMap it = js ''Item'')"
proof (intro conjI allI impI)
  show "length (concat (weekGrid entries)) = 28" by (rule length_concat_weekGrid)
next
  fix mi dayIndex :: nat assume "mi < length MEAL_TYPES" "dayIndex < 7"
  then show "weekGrid entries ! mi ! dayIndex = cellItems entries dayIndex (MEAL_TYPES ! mi)"
    by (rule weekGrid_nth)
next
  show "subseq (cellItems entries dayIndex meal) entries"
    by (simp add: cellItems_def)
next
  fix e
  show "count_list (cellItems entries dayIndex meal) e =
      (if day e = int dayIndex \<and> meal_type e = meal then count_list entries e else 0)"
    by (simp add: cellItems_def count_list_filter)
qed (auto simp: itemLabel_cases)

theorem weekGrid_stable_partition_and_labels_witness:
  "weekGrid [leftoversEntry, lateEntry, recipeEntry] ! 2 ! 0 = [leftoversEntry, recipeEntry] \<and>
   subseq [leftoversEntry, recipeEntry] [leftoversEntry, lateEntry, recipeEntry] \<and>
   count_list (cellItems [leftoversEntry, lateEntry, recipeEntry] 0 (js ''dinner'')) lateEntry = 0 \<and>
   itemLabel [js ''R1'' \<mapsto> js ''Pancakes''] leftoversEntry = js ''leftovers'' \<and>
   itemLabel [js ''R1'' \<mapsto> js ''Pancakes''] recipeEntry = js ''Pancakes'' \<and>
   itemLabel Map.empty recipeEntry = js ''Recipe'' \<and>
   itemLabel Map.empty lateEntry = js ''Item''"
proof -
  let ?entries = "[leftoversEntry, lateEntry, recipeEntry]"
  have c: "cellItems ?entries 0 (js ''dinner'') = [leftoversEntry, recipeEntry]"
    by (simp add: cellItems_def leftoversEntry_def lateEntry_def recipeEntry_def)
  have m: "MEAL_TYPES ! 2 = js ''dinner''" "(2::nat) < length MEAL_TYPES"
    by (simp_all add: MEAL_TYPES_def)
  have r: "recipe_id recipeEntry = Some (js ''R1'')" "js ''R1'' \<noteq> []"
    "recipe_id leftoversEntry = None" "item_notes leftoversEntry = Some (js ''leftovers'')"
    "recipe_id lateEntry = None" "item_notes lateEntry = None" "day lateEntry \<noteq> int 0"
    by (simp_all add: recipeEntry_def leftoversEntry_def lateEntry_def js_def)
  note t = weekGrid_stable_partition_and_labels [where entries = ?entries and dayIndex = 0
      and meal = "js ''dinner''"]
  have 1: "weekGrid ?entries ! 2 ! 0 = [leftoversEntry, recipeEntry]"
    using t m c by simp
  have 2: "subseq [leftoversEntry, recipeEntry] ?entries"
    using t [of leftoversEntry] c by simp
  have 3: "count_list (cellItems ?entries 0 (js ''dinner'')) lateEntry = 0"
    using t [of leftoversEntry] r by simp
  have 4: "itemLabel [js ''R1'' \<mapsto> js ''Pancakes''] leftoversEntry = js ''leftovers''"
    using t [of leftoversEntry _ "[js ''R1'' \<mapsto> js ''Pancakes'']" _ "js ''leftovers''"] r by simp
  have 5: "itemLabel [js ''R1'' \<mapsto> js ''Pancakes''] recipeEntry = js ''Pancakes''"
    using t [of recipeEntry "js ''R1''" "[js ''R1'' \<mapsto> js ''Pancakes'']" "js ''Pancakes''"] r by simp
  have 6: "itemLabel Map.empty recipeEntry = js ''Recipe''"
    using t [of recipeEntry "js ''R1''" Map.empty] r by simp
  have 7: "itemLabel Map.empty lateEntry = js ''Item''"
    using t [of lateEntry _ Map.empty] r by simp
  from 1 2 3 4 5 6 7 show ?thesis by blast
qed

text \<open>
  Claim C10. The cells of the grid are the \<open>cellItems\<close> of the 28 pairs of \<open>gridCells\<close>.
  An entry whose day is not in 0..6 or whose meal type is not one of the four is in no
  cell; an entry of the input with a day in 0..6 and one of the four meal types is in
  exactly one cell; the cells together hold as many entries as the input has well-formed
  ones.
\<close>

theorem malformed_entries_dropped_from_grid:
  "concat (weekGrid entries) = map (\<lambda>(meal, dayIndex). cellItems entries dayIndex meal) gridCells \<and>
   (\<not> wellFormedEntry it \<longrightarrow> (\<forall>cell\<in>set (concat (weekGrid entries)). it \<notin> set cell)) \<and>
   (wellFormedEntry it \<and> it \<in> set entries \<longrightarrow>
      (\<exists>!c. c \<in> set gridCells \<and> it \<in> set (cellItems entries (snd c) (fst c)))) \<and>
   sum_list (map length (concat (weekGrid entries))) = length (filter wellFormedEntry entries)"
proof (intro conjI impI)
  show "concat (weekGrid entries) = map (\<lambda>(meal, dayIndex). cellItems entries dayIndex meal) gridCells"
    by (rule concat_weekGrid)
next
  assume n: "\<not> wellFormedEntry it"
  show "\<forall>cell\<in>set (concat (weekGrid entries)). it \<notin> set cell"
  proof
    fix cell assume "cell \<in> set (concat (weekGrid entries))"
    then obtain c where c: "c \<in> set gridCells" and cell: "cell = cellItems entries (snd c) (fst c)"
      by (auto simp: concat_weekGrid)
    show "it \<notin> set cell"
    proof
      assume "it \<in> set cell"
      with cell have "day it = int (snd c) \<and> meal_type it = fst c" by (simp add: cellItems_def)
      with c have "wellFormedEntry it" unfolding wellFormed_iff_cell by blast
      with n show False ..
    qed
  qed
next
  assume "wellFormedEntry it \<and> it \<in> set entries"
  then have w: "wellFormedEntry it" and i: "it \<in> set entries" by simp_all
  from w obtain c where c: "c \<in> set gridCells" "day it = int (snd c)" "meal_type it = fst c"
    unfolding wellFormed_iff_cell by blast
  show "\<exists>!c. c \<in> set gridCells \<and> it \<in> set (cellItems entries (snd c) (fst c))"
  proof (rule ex1I [of _ c])
    from c i show "c \<in> set gridCells \<and> it \<in> set (cellItems entries (snd c) (fst c))"
      by (simp add: cellItems_def)
  next
    fix c' assume "c' \<in> set gridCells \<and> it \<in> set (cellItems entries (snd c') (fst c'))"
    then have "day it = int (snd c')" "meal_type it = fst c'" by (simp_all add: cellItems_def)
    with c show "c' = c" by (simp add: prod_eq_iff)
  qed
next
  show "sum_list (map length (concat (weekGrid entries))) = length (filter wellFormedEntry entries)"
    by (rule cells_total)
qed

theorem malformed_entries_dropped_from_grid_witness:
  "\<not> wellFormedEntry lateEntry \<and> \<not> wellFormedEntry brunchEntry \<and> wellFormedEntry recipeEntry \<and>
   sum_list (map length (concat (weekGrid [lateEntry, recipeEntry, brunchEntry]))) = 1 \<and>
   lateEntry \<notin> set (weekGrid [lateEntry, recipeEntry, brunchEntry] ! 2 ! 6) \<and>
   brunchEntry \<notin> set (weekGrid [lateEntry, recipeEntry, brunchEntry] ! 1 ! 2) \<and>
   (\<exists>!c. c \<in> set gridCells \<and>
      recipeEntry \<in> set (cellItems [lateEntry, recipeEntry, brunchEntry] (snd c) (fst c)))"
proof -
  let ?entries = "[lateEntry, recipeEntry, brunchEntry]"
  have w: "\<not> wellFormedEntry lateEntry" "\<not> wellFormedEntry brunchEntry" "wellFormedEntry recipeEntry"
    by (simp_all add: wellFormedEntry_def lateEntry_def brunchEntry_def recipeEntry_def
        MEAL_TYPES_def js_def)
  then have f: "filter wellFormedEntry ?entries = [recipeEntry]" by simp
  note t = malformed_entries_dropped_from_grid [of ?entries]
  from t [of recipeEntry] have
    "sum_list (map length (concat (weekGrid ?entries))) = length (filter wellFormedEntry ?entries)"
    by blast
  then have 1: "sum_list (map length (concat (weekGrid ?entries))) = 1"
    by (simp only: f list.size One_nat_def add_0)
  have g: "weekGrid ?entries ! 2 ! 6 \<in> set (concat (weekGrid ?entries))"
    "weekGrid ?entries ! 1 ! 2 \<in> set (concat (weekGrid ?entries))"
    by (simp_all add: weekGrid_def MEAL_TYPES_def)
  have 2: "lateEntry \<notin> set (weekGrid ?entries ! 2 ! 6)"
    using t [of lateEntry] w g by blast
  have 3: "brunchEntry \<notin> set (weekGrid ?entries ! 1 ! 2)"
    using t [of brunchEntry] w g by blast
  have 4: "\<exists>!c. c \<in> set gridCells \<and> recipeEntry \<in> set (cellItems ?entries (snd c) (fst c))"
    using t [of recipeEntry] w by (simp del: set_ConsD)
  from w 1 2 3 4 show ?thesis by blast
qed

section \<open>The week window\<close>



lemma TimeClip_valid: "\<bar>t\<bar> \<le> maxTimeValue \<Longrightarrow> TimeClip t = TimeValue t"
  by (simp add: TimeClip_def)





lemma TimeWithinDay_MakeDate [simp]: "TimeWithinDay (MakeDate q 0) = 0"
  by (simp add: TimeWithinDay_def MakeDate_def)

lemma MakeDate_Day: "MakeDate (Day x + n) (TimeWithinDay x) = x + n * msPerDay"
  by (simp add: MakeDate_def Day_def TimeWithinDay_def algebra_simps)

lemma MakeDate_Day_minus: "MakeDate (Day x - n) (TimeWithinDay x) = x - n * msPerDay"
  by (simp add: MakeDate_def Day_def TimeWithinDay_def algebra_simps)



lemma setDateRelative_local:
  "setDateRelative tz (TimeValue t) (Some n) = TimeClip (UTC tz (LocalTime tz t + n * msPerDay))"
  by (simp add: setDateRelative_def MakeDate_Day)

lemma setHoursZero_local:
  "setHoursZero tz (TimeValue t) = TimeClip (UTC tz (startOfLocalDay tz t))"
  by (simp add: setHoursZero_def startOfLocalDay_def)

lemma addDays_local:
  "validDate (TimeValue t) \<Longrightarrow>
   addDays tz (TimeValue t) n = TimeClip (UTC tz (LocalTime tz t + n * msPerDay))"
  by (simp add: addDays_def newDate_def validDate_def TimeClip_valid setDateRelative_local)



text \<open>The two steps of startOfWeekMonday on a valid date.\<close>

lemma startOfWeekMonday_steps:
  assumes "\<bar>t\<bar> \<le> maxTimeValue"
  shows "startOfWeekMonday tz (TimeValue t) =
     (if \<bar>UTC tz (startOfLocalDay tz t)\<bar> \<le> maxTimeValue
      then TimeClip (UTC tz (LocalTime tz (UTC tz (startOfLocalDay tz t))
             - (WeekDay (LocalTime tz t) + 6) mod 7 * msPerDay))
      else InvalidDate)"
  using assms
  by (simp add: startOfWeekMonday_def newDate_def TimeClip_valid getDay_def setHoursZero_local
      TimeClip_def [of "UTC tz (startOfLocalDay tz t)"] setDateRelative_def MakeDate_Day_minus)



















lemma addWeeks_local:
  "validDate (TimeValue t) \<Longrightarrow>
   addWeeks tz (TimeValue t) w = TimeClip (UTC tz (LocalTime tz t + w * 7 * msPerDay))"
  by (simp add: addWeeks_def addDays_local)



subsection \<open>The reference time zones\<close>

lemma LocalTime_fixedOffset [simp]: "LocalTime (fixedOffset a) t = t + a"
  by (simp add: LocalTime_def LocalTZA_def fixedOffset_def)

lemma UTC_fixedOffset [simp]: "UTC (fixedOffset a) x = x - a"
  by (simp add: UTC_def LocalTZA_def fixedOffset_def)




lemma clockShows_fixedOffset: "clockShows (fixedOffset a) x"
  by (simp add: clockShows_def)
















lemmas fixed_eval = startOfWeekMonday_steps startOfLocalDay_def startOfLocalWeek_def
  LocalTime_fixedOffset UTC_fixedOffset Day_def WeekDay_def MakeDate_def TimeClip_def
  msPerDay_def maxTimeValue_def


section \<open>The claims on the week window\<close>










section \<open>The session of the page\<close>

lemma initialState_value:
  "initialState utcZone (TimeValue 1793701800000) =
     \<lparr>anchorDate = TimeValue 1793577600000, plan = None, items = [], loading = True,
      globalErr = None, showGroceries = False, groceryItems = [], checked = {}\<rparr>"
  by (simp add: initialState_def utcZone_def fixed_eval)

lemma weekLoaded_value:
  "weekLoaded =
     \<lparr>anchorDate = TimeValue 1793577600000, plan = Some planOfFirstWeek, items = [recipeEntry],
      loading = False, globalErr = None, showGroceries = False, groceryItems = [],
      checked = {}\<rparr>"
  by (simp add: weekLoaded_def referenceStep_def pageStep_def loadWeek_def initialState_value)

lemma recipeIds_recipeEntry: "recipeIds [recipeEntry] = [js ''R1'']"
  by (simp add: recipeIds_def List.map_filter_def recipeEntry_def js_def)

lemma groceriesOpened_value:
  "groceriesOpened =
     \<lparr>anchorDate = TimeValue 1793577600000, plan = Some planOfFirstWeek, items = [recipeEntry],
      loading = False, globalErr = None, showGroceries = True,
      groceryItems = [js ''2 eggs'', js ''Milk'', js ''Salt''], checked = {}\<rparr>"
proof -
  have "dedupeIngredients asciiToLowerCase compareCodeUnits (allLines (Some [recipeA, recipeB])) =
      [js ''2 eggs'', js ''Milk'', js ''Salt'']"
    by (rule dedupe_example) (simp_all add: reference_lower_example reference_compare_example)
  then show ?thesis
    by (simp add: groceriesOpened_def referenceStep_def pageStep_def openGroceryList_def
        weekLoaded_value recipeIds_recipeEntry)
qed

lemma milkChecked_value:
  "milkChecked =
     \<lparr>anchorDate = TimeValue 1793577600000, plan = Some planOfFirstWeek, items = [recipeEntry],
      loading = False, globalErr = None, showGroceries = True,
      groceryItems = [js ''2 eggs'', js ''Milk'', js ''Salt''], checked = {js ''Milk''}\<rparr>"
  by (simp add: milkChecked_def referenceStep_def pageStep_def toggleChecked_def
      groceriesOpened_value)

lemma drawerClosed_value:
  "drawerClosed =
     \<lparr>anchorDate = TimeValue 1793577600000, plan = Some planOfFirstWeek, items = [recipeEntry],
      loading = False, globalErr = None, showGroceries = False,
      groceryItems = [js ''2 eggs'', js ''Milk'', js ''Salt''], checked = {js ''Milk''}\<rparr>"
  by (simp add: drawerClosed_def referenceStep_def pageStep_def milkChecked_value)

lemma nextWeekShown_value:
  "nextWeekShown =
     \<lparr>anchorDate = TimeValue 1794182400000, plan = Some planOfFirstWeek, items = [recipeEntry],
      loading = False, globalErr = None, showGroceries = False,
      groceryItems = [js ''2 eggs'', js ''Milk'', js ''Salt''], checked = {js ''Milk''}\<rparr>"
proof -
  have "addWeeks utcZone (TimeValue 1793577600000) 1 = TimeValue 1794182400000"
    by (simp add: addWeeks_local validDate_def utcZone_def TimeClip_def msPerDay_def
        maxTimeValue_def)
  then show ?thesis
    by (simp add: nextWeekShown_def referenceStep_def pageStep_def drawerClosed_value)
qed

lemma nextWeekFailed_value:
  "nextWeekFailed =
     \<lparr>anchorDate = TimeValue 1794182400000, plan = Some planOfNextWeek, items = [recipeEntry],
      loading = False, globalErr = Some (js ''Failed to fetch''), showGroceries = False,
      groceryItems = [js ''2 eggs'', js ''Milk'', js ''Salt''], checked = {js ''Milk''}\<rparr>"
  by (simp add: nextWeekFailed_def referenceStep_def pageStep_def loadWeek_def nextWeekShown_value)

lemma reachable_milkChecked: "reachable asciiToLowerCase compareCodeUnits utcZone milkChecked"
proof -
  note st = reachable.step [of asciiToLowerCase compareCodeUnits utcZone, folded referenceStep_def]
  have 0: "reachable asciiToLowerCase compareCodeUnits utcZone (initialState utcZone (TimeValue 1793701800000))"
    by (rule reachable.initial)
  have 1: "reachable asciiToLowerCase compareCodeUnits utcZone weekLoaded"
    unfolding weekLoaded_def by (rule st [OF 0]) (simp add: enabled_def)
  have 2: "reachable asciiToLowerCase compareCodeUnits utcZone groceriesOpened"
    unfolding groceriesOpened_def by (rule st [OF 1]) (simp add: enabled_def)
  show ?thesis
    unfolding milkChecked_def by (rule st [OF 2]) (simp add: enabled_def groceriesOpened_value)
qed

lemma reachable_drawerClosed: "reachable asciiToLowerCase compareCodeUnits utcZone drawerClosed"
  unfolding drawerClosed_def referenceStep_def
  by (rule reachable.step [OF reachable_milkChecked]) (simp add: enabled_def milkChecked_value)

lemma reachable_nextWeekFailed: "reachable asciiToLowerCase compareCodeUnits utcZone nextWeekFailed"
proof -
  note st = reachable.step [of asciiToLowerCase compareCodeUnits utcZone, folded referenceStep_def]
  have 5: "reachable asciiToLowerCase compareCodeUnits utcZone nextWeekShown"
    unfolding nextWeekShown_def by (rule st [OF reachable_drawerClosed]) (simp add: enabled_def)
  show ?thesis
    unfolding nextWeekFailed_def by (rule st [OF 5]) (simp add: enabled_def)
qed

text \<open>While the page runs, only lines of the grocery list are checked.\<close>

lemma checked_among_groceryItems:
  "reachable lc cmp tz s \<Longrightarrow> checked s \<subseteq> set (groceryItems s)"
proof (induction rule: reachable.induct)
  case (initial now)
  then show ?case by (simp add: initialState_def)
next
  case (step s ev)
  then show ?case
    by (cases ev)
       (auto simp: pageStep_def loadWeek_def openGroceryList_def toggleChecked_def enabled_def
          addRecipeToCell_def removeEntries_def
          split: LoadOutcome.splits StoreAnswer.splits MutationOutcome.splits if_splits)
qed

section \<open>The claims on the page\<close>

text \<open>
  Claim C9, amended. In every reachable state of the page, after the week has been loaded
  (the effect of a week change ran to its end without a failure) the checked set is
  empty, and after every run of \<open>openGroceryList\<close> that computes the grocery list anew the
  checked set is empty and the drawer is shown, whatever was checked before; a run that
  does not compute the list (no plan, or the store answered with an error) leaves the
  list, the checked set and the drawer as they were. As stated, after every change of
  the displayed week, the claim fails: when loading the new week fails, the checked set
  keeps its items.
\<close>

theorem checked_reset_on_week_load_and_recompute:
  assumes "reachable toLowerCase localeCompare tz s"
  shows "checked (pageStep toLowerCase localeCompare tz (WeekLoadFinished (Loaded planRow rows)) s) = {} \<and>
         (groceryListRecomputed answer s \<longrightarrow>
            checked (pageStep toLowerCase localeCompare tz (GroceryListClicked answer) s) = {} \<and>
            showGroceries (pageStep toLowerCase localeCompare tz (GroceryListClicked answer) s)) \<and>
         (\<not> groceryListRecomputed answer s \<longrightarrow>
            checked (pageStep toLowerCase localeCompare tz (GroceryListClicked answer) s) = checked s \<and>
            groceryItems (pageStep toLowerCase localeCompare tz (GroceryListClicked answer) s) =
              groceryItems s \<and>
            showGroceries (pageStep toLowerCase localeCompare tz (GroceryListClicked answer) s) =
              showGroceries s)"
  by (auto simp: pageStep_def loadWeek_def openGroceryList_def groceryListRecomputed_def
      split: StoreAnswer.splits)

theorem checked_reset_on_week_load_and_recompute_counterexample:
  "reachable asciiToLowerCase compareCodeUnits utcZone drawerClosed \<and>
   checked drawerClosed = {js ''Milk''} \<and>
   nextWeekShown = pageStep asciiToLowerCase compareCodeUnits utcZone (WeekShifted 1) drawerClosed \<and>
   weekStart utcZone drawerClosed = TimeValue 1793577600000 \<and>
   weekStart utcZone nextWeekShown = TimeValue 1794182400000 \<and>
   nextWeekFailed = pageStep asciiToLowerCase compareCodeUnits utcZone
     (WeekLoadFinished (ItemsQueryFailed planOfNextWeek (Some (js ''Failed to fetch''))))
     nextWeekShown \<and>
   reachable asciiToLowerCase compareCodeUnits utcZone nextWeekFailed \<and>
   plan nextWeekFailed = Some planOfNextWeek \<and>
   weekStart utcZone nextWeekFailed = TimeValue 1794182400000 \<and>
   checked nextWeekFailed = {js ''Milk''} \<and>
   checked nextWeekShown = {js ''Milk''}"
proof -
  have w: "startOfWeekMonday utcZone (TimeValue 1793577600000) = TimeValue 1793577600000"
    "startOfWeekMonday utcZone (TimeValue 1794182400000) = TimeValue 1794182400000"
    by (simp_all add: utcZone_def fixed_eval)
  have a: "weekStart utcZone drawerClosed = TimeValue 1793577600000"
    "weekStart utcZone nextWeekShown = TimeValue 1794182400000"
    "weekStart utcZone nextWeekFailed = TimeValue 1794182400000"
    by (simp_all add: weekStart_def drawerClosed_value nextWeekShown_value nextWeekFailed_value w)
  have c: "checked drawerClosed = {js ''Milk''}" "checked nextWeekFailed = {js ''Milk''}"
    "checked nextWeekShown = {js ''Milk''}" "plan nextWeekFailed = Some planOfNextWeek"
    by (simp_all add: drawerClosed_value nextWeekShown_value nextWeekFailed_value)
  have d: "nextWeekShown = pageStep asciiToLowerCase compareCodeUnits utcZone (WeekShifted 1) drawerClosed"
    "nextWeekFailed = pageStep asciiToLowerCase compareCodeUnits utcZone
     (WeekLoadFinished (ItemsQueryFailed planOfNextWeek (Some (js ''Failed to fetch''))))
     nextWeekShown"
    by (simp_all only: nextWeekShown_def nextWeekFailed_def referenceStep_def)
  from reachable_drawerClosed reachable_nextWeekFailed a c d show ?thesis by blast
qed

theorem checked_reset_on_week_load_and_recompute_witness:
  "reachable asciiToLowerCase compareCodeUnits utcZone milkChecked \<and>
   checked milkChecked = {js ''Milk''} \<and>
   checked (pageStep asciiToLowerCase compareCodeUnits utcZone
     (WeekLoadFinished (Loaded planOfNextWeek (Some []))) milkChecked) = {} \<and>
   groceryListRecomputed (StoreData (Some [recipeA])) milkChecked \<and>
   checked (pageStep asciiToLowerCase compareCodeUnits utcZone
     (GroceryListClicked (StoreData (Some [recipeA]))) milkChecked) = {} \<and>
   \<not> groceryListRecomputed (StoreError (js ''Failed to fetch'')) milkChecked \<and>
   checked (pageStep asciiToLowerCase compareCodeUnits utcZone
     (GroceryListClicked (StoreError (js ''Failed to fetch''))) milkChecked) = {js ''Milk''}"
proof -
  note t = checked_reset_on_week_load_and_recompute [OF reachable_milkChecked]
  have c: "checked milkChecked = {js ''Milk''}" by (simp add: milkChecked_value)
  have g: "groceryListRecomputed (StoreData (Some [recipeA])) milkChecked"
    "\<not> groceryListRecomputed (StoreError (js ''Failed to fetch'')) milkChecked"
    by (simp_all add: groceryListRecomputed_def milkChecked_value recipeIds_recipeEntry)
  from t [of planOfNextWeek "Some []" "StoreData (Some [recipeA])"] g(1)
  have 1: "checked (pageStep asciiToLowerCase compareCodeUnits utcZone
     (WeekLoadFinished (Loaded planOfNextWeek (Some []))) milkChecked) = {}"
    "checked (pageStep asciiToLowerCase compareCodeUnits utcZone
     (GroceryListClicked (StoreData (Some [recipeA]))) milkChecked) = {}"
    by blast+
  from t [of planOfNextWeek "Some []" "StoreError (js ''Failed to fetch'')"] g(2) c
  have 2: "checked (pageStep asciiToLowerCase compareCodeUnits utcZone
     (GroceryListClicked (StoreError (js ''Failed to fetch''))) milkChecked) = {js ''Milk''}"
    by simp
  from reachable_milkChecked c g 1 2 show ?thesis by blast
qed

text \<open>
  Claim C8. The aggregation of no recipes (a \<^verbatim>\<open>null\<close> or an empty answer of the store), or
  of recipes none of which has an ingredient line (\<^verbatim>\<open>null\<close> or an empty list), is the
  empty sequence; the aggregation is a total function, no input makes it fail.
  On the page, with a plan, such an answer of the store opens the drawer with an empty
  list and sets no error message.
\<close>

theorem aggregation_of_no_ingredients_is_empty:
  assumes "recipes = None \<or>
     (\<exists>rs. recipes = Some rs \<and> (\<forall>r\<in>set rs. ingredients r = None \<or> ingredients r = Some []))"
  shows "dedupeIngredients toLowerCase localeCompare (allLines recipes) = [] \<and>
     (plan s \<noteq> None \<longrightarrow>
        groceryItems (openGroceryList toLowerCase localeCompare (StoreData recipes) s) = [] \<and>
        showGroceries (openGroceryList toLowerCase localeCompare (StoreData recipes) s) \<and>
        globalErr (openGroceryList toLowerCase localeCompare (StoreData recipes) s) = globalErr s)"
proof -
  from assms have "allLines recipes = []"
    by (auto simp: allLines_no_ingredients) (simp add: allLines_def)
  then have "dedupeIngredients toLowerCase localeCompare (allLines recipes) = []"
    by (simp add: dedupeIngredients_def mapValues_def arraySort_def)
  then show ?thesis by (simp add: openGroceryList_def)
qed

theorem aggregation_of_no_ingredients_is_empty_witness:
  "dedupeIngredients asciiToLowerCase compareCodeUnits (allLines None) = [] \<and>
   dedupeIngredients asciiToLowerCase compareCodeUnits (allLines (Some [])) = [] \<and>
   dedupeIngredients asciiToLowerCase compareCodeUnits
     (allLines (Some [\<lparr>recipe_with_ings_id = js ''A'', recipe_with_ings_title = js ''Soup'',
                        ingredients = None\<rparr>,
                      \<lparr>recipe_with_ings_id = js ''B'', recipe_with_ings_title = js ''Tea'',
                        ingredients = Some []\<rparr>])) = [] \<and>
   plan weekLoaded \<noteq> None \<and>
   groceryItems (openGroceryList asciiToLowerCase compareCodeUnits (StoreData (Some [])) weekLoaded) = [] \<and>
   showGroceries (openGroceryList asciiToLowerCase compareCodeUnits (StoreData (Some [])) weekLoaded) \<and>
   globalErr (openGroceryList asciiToLowerCase compareCodeUnits (StoreData (Some [])) weekLoaded) = None"
proof -
  have p: "plan weekLoaded \<noteq> None" "globalErr weekLoaded = None"
    by (simp_all add: weekLoaded_value)
  from aggregation_of_no_ingredients_is_empty [of None asciiToLowerCase compareCodeUnits weekLoaded]
    aggregation_of_no_ingredients_is_empty [of "Some []" asciiToLowerCase compareCodeUnits weekLoaded]
    aggregation_of_no_ingredients_is_empty
      [of "Some [\<lparr>recipe_with_ings_id = js ''A'', recipe_with_ings_title = js ''Soup'',
                        ingredients = None\<rparr>,
                      \<lparr>recipe_with_ings_id = js ''B'', recipe_with_ings_title = js ''Tea'',
                        ingredients = Some []\<rparr>]" asciiToLowerCase compareCodeUnits weekLoaded]
    p
  show ?thesis by simp
qed

end
